theory Spec2Isabelle
  imports Complex_Main "HOL-Library.Code_Target_Numeral"
begin

section \<open>JavaScript values and the runtime primitives the comparator calls\<close>

text \<open>
  The comparison engine of the Excel File Comparison Tool (class \<open>ExcelComparator\<close>)
  works on cell values as the spreadsheet library hands them over: numbers, strings,
  booleans, and the absent values \<open>null\<close> and \<open>undefined\<close>.

  Numbers: a JavaScript number is an IEEE 754 double, \<open>NaN\<close>, or one of the two
  infinities. The type \<open>double\<close> holds the finite doubles, each given by its exact
  value; a numeric literal, the value of a numeric string, and the result of every
  subtraction and product are rounded to the nearest double, ties to even, and
  overflow to an infinity (\<open>toDouble\<close>). \<open>-0\<close> is identified with \<open>0\<close>: the engine
  never divides, so the two are not told apart.

  Strings: a list of code units below 256 (Latin-1), on which white space and
  \<open>toLowerCase\<close> are those of ECMAScript.
\<close>

subsection \<open>Doubles\<close>

definition pow2 :: "int \<Rightarrow> real" where
  "pow2 e = (if 0 \<le> e then 2 ^ nat e else 1 / 2 ^ nat (- e))"

text \<open>
  The finite doubles: an integer of magnitude below \<open>2^53\<close> times a power of two
  between \<open>2^-1074\<close> and \<open>2^971\<close>.
\<close>

definition doubleValues :: "real set" where
  "doubleValues =
     {x. \<exists>m e. x = real_of_int m * pow2 e \<and> \<bar>m\<bar> < 2 ^ 53 \<and> - 1074 \<le> e \<and> e \<le> 971}"

typedef double = doubleValues
  morphisms valueOf Abs_double
  by (auto simp: doubleValues_def intro!: exI [of _ 0])

definition maxDouble :: real where
  "maxDouble = (2 ^ 53 - 1) * 2 ^ 971"

text \<open>The integer nearest to \<open>t\<close>, the even one of two that are equally near.\<close>

definition roundFrom :: "int \<Rightarrow> real \<Rightarrow> int" where
  "roundFrom f t =
     (if t - of_int f < 1 / 2 then f
      else if 1 / 2 < t - of_int f then f + 1
      else if even f then f else f + 1)"

definition roundEven :: "real \<Rightarrow> int" where
  "roundEven t = roundFrom \<lfloor>t\<rfloor> t"

text \<open>
  The binary exponent of a positive number, \<open>\<lfloor>log\<^sub>2 x\<rfloor>\<close>, kept between \<open>-1022\<close> (below
  which the doubles are subnormal and equally spaced) and \<open>1023\<close>.
\<close>

fun halvings :: "nat \<Rightarrow> real \<Rightarrow> int" where
  "halvings 0 x = 0"
| "halvings (Suc n) x = (if 2 \<le> x then halvings n (x / 2) + 1 else 0)"

fun doublings :: "nat \<Rightarrow> real \<Rightarrow> int" where
  "doublings 0 x = 0"
| "doublings (Suc n) x = (if x < 1 then doublings n (x * 2) + 1 else 0)"

definition exponentOf :: "real \<Rightarrow> int" where
  "exponentOf x = (if 1 \<le> x then halvings 1023 x else - doublings 1022 x)"

text \<open>
  Rounding to the nearest double: to the nearest multiple of the spacing
  \<open>2^(e - 52)\<close> of the doubles around \<open>x\<close>, which keeps 53 significant bits.
\<close>

definition roundTo :: "real \<Rightarrow> real \<Rightarrow> real" where
  "roundTo u x = of_int (roundEven (x / u)) * u"

definition nearestPos :: "real \<Rightarrow> real" where
  "nearestPos x = roundTo (pow2 (exponentOf x - 52)) x"

definition nearest :: "real \<Rightarrow> real" where
  "nearest x = (if x = 0 then 0 else if x < 0 then - nearestPos (- x) else nearestPos x)"

text \<open>
  The double nearest to \<open>x\<close>, for \<open>x\<close> within the range of the doubles (the guard
  makes the function total; \<open>toDouble\<close> below calls it within the range only), and
  the negative and the magnitude of a double, which are doubles again.
\<close>

definition inRange :: "real \<Rightarrow> real" where
  "inRange y = (if \<bar>y\<bar> \<le> maxDouble then y else 0)"

definition nearestDouble :: "real \<Rightarrow> double" where
  "nearestDouble x = Abs_double (inRange (nearest x))"

definition negDouble :: "double \<Rightarrow> double" where
  "negDouble d = Abs_double (- valueOf d)"

definition absDouble :: "double \<Rightarrow> double" where
  "absDouble d = Abs_double \<bar>valueOf d\<bar>"

datatype jsnum = NaN | Fin double | PosInf | NegInf

datatype jsval = Undefined | Null | Bool bool | Num jsnum | Str string

text \<open>
  The number a real value denotes: the nearest double, or an infinity when rounding
  leads beyond the largest double.
\<close>

definition overflowTo :: "real \<Rightarrow> double \<Rightarrow> jsnum" where
  "overflowTo y d =
     (if maxDouble < y then PosInf
      else if y < - maxDouble then NegInf
      else Fin d)"

definition toDouble :: "real \<Rightarrow> jsnum" where
  "toDouble x = overflowTo (nearest x) (nearestDouble x)"

subsection \<open>Arithmetic and comparison on numbers\<close>

fun num_neg :: "jsnum \<Rightarrow> jsnum" where
  "num_neg NaN = NaN"
| "num_neg (Fin x) = Fin (negDouble x)"
| "num_neg PosInf = NegInf"
| "num_neg NegInf = PosInf"

fun num_abs :: "jsnum \<Rightarrow> jsnum" where
  "num_abs NaN = NaN"
| "num_abs (Fin x) = Fin (absDouble x)"
| "num_abs PosInf = PosInf"
| "num_abs NegInf = PosInf"

fun num_sub :: "jsnum \<Rightarrow> jsnum \<Rightarrow> jsnum" where
  "num_sub NaN b = NaN"
| "num_sub (Fin x) NaN = NaN"
| "num_sub (Fin x) (Fin y) = toDouble (valueOf x - valueOf y)"
| "num_sub (Fin x) PosInf = NegInf"
| "num_sub (Fin x) NegInf = PosInf"
| "num_sub PosInf NaN = NaN"
| "num_sub PosInf (Fin y) = PosInf"
| "num_sub PosInf PosInf = NaN"
| "num_sub PosInf NegInf = PosInf"
| "num_sub NegInf NaN = NaN"
| "num_sub NegInf (Fin y) = NegInf"
| "num_sub NegInf PosInf = NegInf"
| "num_sub NegInf NegInf = NaN"

text \<open>\<open>value * 100\<close>: the only product the engine forms.\<close>

fun num_times100 :: "jsnum \<Rightarrow> jsnum" where
  "num_times100 NaN = NaN"
| "num_times100 (Fin x) = toDouble (valueOf x * 100)"
| "num_times100 PosInf = PosInf"
| "num_times100 NegInf = NegInf"

text \<open>The relational operators; every comparison with \<open>NaN\<close> is false.\<close>

fun num_lt :: "jsnum \<Rightarrow> jsnum \<Rightarrow> bool" where
  "num_lt NaN b = False"
| "num_lt a NaN = False"
| "num_lt (Fin x) (Fin y) = (valueOf x < valueOf y)"
| "num_lt (Fin x) PosInf = True"
| "num_lt (Fin x) NegInf = False"
| "num_lt PosInf b = False"
| "num_lt NegInf (Fin y) = True"
| "num_lt NegInf PosInf = True"
| "num_lt NegInf NegInf = False"

definition num_gt :: "jsnum \<Rightarrow> jsnum \<Rightarrow> bool" where
  "num_gt a b = num_lt b a"

fun num_le :: "jsnum \<Rightarrow> jsnum \<Rightarrow> bool" where
  "num_le NaN b = False"
| "num_le a NaN = False"
| "num_le (Fin x) (Fin y) = (valueOf x \<le> valueOf y)"
| "num_le (Fin x) PosInf = True"
| "num_le (Fin x) NegInf = False"
| "num_le PosInf PosInf = True"
| "num_le PosInf b = False"
| "num_le NegInf b = True"

definition num_ge :: "jsnum \<Rightarrow> jsnum \<Rightarrow> bool" where
  "num_ge a b = num_le b a"

subsection \<open>Characters and strings\<close>

definition isDigit :: "char \<Rightarrow> bool" where
  "isDigit c = (let n = (of_char c :: nat) in 48 \<le> n \<and> n \<le> 57)"

definition digitVal :: "char \<Rightarrow> nat" where
  "digitVal c = (of_char c :: nat) - 48"

definition digitChar :: "nat \<Rightarrow> char" where
  "digitChar d = ''0123456789'' ! (d mod 10)"

text \<open>The word characters of a regular expression (\<open>\w\<close>): letters, digits, underscore.\<close>

definition isWordChar :: "char \<Rightarrow> bool" where
  "isWordChar c = (let n = (of_char c :: nat) in
     (48 \<le> n \<and> n \<le> 57) \<or> (65 \<le> n \<and> n \<le> 90) \<or> (97 \<le> n \<and> n \<le> 122) \<or> n = 95)"

text \<open>
  White space and line terminators below 256: tab, LF, VT, FF, CR, space, and the
  no-break space.
\<close>

definition isSpace :: "char \<Rightarrow> bool" where
  "isSpace c = (let n = (of_char c :: nat) in (9 \<le> n \<and> n \<le> 13) \<or> n = 32 \<or> n = 160)"

definition trim :: "string \<Rightarrow> string" where
  "trim s = rev (dropWhile isSpace (rev (dropWhile isSpace s)))"

definition endsWithPercent :: "string \<Rightarrow> bool" where
  "endsWithPercent s = (case rev s of [] \<Rightarrow> False | c # cs \<Rightarrow> c = CHR ''%'')"

text \<open>
  Lower case: the letters \<open>A\<close> to \<open>Z\<close>, and the Latin-1 capitals from 192 to 222 but
  for the multiplication sign 215, which lie 32 below their small letters.
\<close>

definition lowerChar :: "char \<Rightarrow> char" where
  "lowerChar c = (let n = (of_char c :: nat) in
     if 65 \<le> n \<and> n \<le> 90 then ''abcdefghijklmnopqrstuvwxyz'' ! (n - 65)
     else if 192 \<le> n \<and> n \<le> 222 \<and> n \<noteq> 215 then char_of (n + 32)
     else c)"

definition toLowerCase :: "string \<Rightarrow> string" where
  "toLowerCase s = map lowerChar s"

text \<open>\<open>s.includes(sub)\<close>: \<open>sub\<close> occurs in \<open>s\<close> as a contiguous substring.\<close>

fun str_includes :: "string \<Rightarrow> string \<Rightarrow> bool" where
  "str_includes [] sub = (sub = [])"
| "str_includes (c # cs) sub = (if take (length sub) (c # cs) = sub then True else str_includes cs sub)"

text \<open>\<open>s.split(sep)\<close> for a one-character separator, and \<open>parts.join(sep)\<close>.\<close>

fun splitOn :: "char \<Rightarrow> string \<Rightarrow> string list" where
  "splitOn sep [] = [[]]"
| "splitOn sep (c # cs) =
     (if c = sep then [] # splitOn sep cs
      else (case splitOn sep cs of [] \<Rightarrow> [[c]] | p # ps \<Rightarrow> (c # p) # ps))"

fun joinWith :: "char \<Rightarrow> string list \<Rightarrow> string" where
  "joinWith sep [] = []"
| "joinWith sep [p] = p"
| "joinWith sep (p # q # ps) = p @ sep # joinWith sep (q # ps)"

subsection \<open>Numbers to strings\<close>

fun natDigits :: "nat \<Rightarrow> string" where
  "natDigits n = (if n < 10 then [digitChar n] else natDigits (n div 10) @ [digitChar (n mod 10)])"

declare natDigits.simps [simp del]

definition stripTrailingZeros :: "string \<Rightarrow> string" where
  "stripTrailingZeros s = rev (dropWhile (\<lambda>c. c = CHR ''0'') (rev s))"

definition scale10 :: "real \<Rightarrow> int \<Rightarrow> real" where
  "scale10 x e = (if 0 \<le> e then x * 10 ^ nat e else x / 10 ^ nat (- e))"

text \<open>
  The position \<open>n\<close> of the decimal point of a positive number: \<open>10^(n-1) \<le> x < 10^n\<close>.
  The smallest double is above \<open>10^-324\<close>.
\<close>

fun tenfolds :: "nat \<Rightarrow> real \<Rightarrow> int" where
  "tenfolds 0 x = 0"
| "tenfolds (Suc n) x = (if x < 1 then tenfolds n (x * 10) + 1 else 0)"

definition pointPosition :: "real \<Rightarrow> int" where
  "pointPosition x =
     (if 1 \<le> x then int (length (natDigits (nat \<lfloor>x\<rfloor>))) else 1 - tenfolds 400 x)"

text \<open>
  \<open>Number::toString\<close> prints the shortest decimal that denotes the number: the
  fewest digits \<open>k\<close> such that some \<open>k\<close>-digit integer \<open>s\<close>, scaled to the magnitude of
  \<open>x\<close>, rounds back to \<open>x\<close>. For a given \<open>k\<close> only the two integers around the scaled \<open>x\<close>
  can do so; if both do, the nearer one is taken (the even one if they are equally
  near). Seventeen digits always suffice.
\<close>

definition roundTrips :: "real \<Rightarrow> nat \<Rightarrow> int \<Rightarrow> bool" where
  "roundTrips x s sc = (nearest (scale10 (real s) sc) = x)"

definition pickDigits :: "real \<Rightarrow> nat \<Rightarrow> int \<Rightarrow> bool \<Rightarrow> bool \<Rightarrow> (nat \<times> int) option" where
  "pickDigits x lo sc okLo okHi =
     (if okLo \<and> okHi
      then (if x - scale10 (real lo) sc < scale10 (real (lo + 1)) sc - x then Some (lo, sc)
            else if scale10 (real (lo + 1)) sc - x < x - scale10 (real lo) sc then Some (lo + 1, sc)
            else if even lo then Some (lo, sc) else Some (lo + 1, sc))
      else if okLo then Some (lo, sc)
      else if okHi then Some (lo + 1, sc)
      else None)"

definition candidates :: "real \<Rightarrow> nat \<Rightarrow> int \<Rightarrow> (nat \<times> int) option" where
  "candidates x lo sc = pickDigits x lo sc (roundTrips x lo sc) (roundTrips x (lo + 1) sc)"

fun shortest :: "nat \<Rightarrow> nat \<Rightarrow> real \<Rightarrow> int \<Rightarrow> nat \<times> int" where
  "shortest 0 k x n = (nat \<lfloor>scale10 x (int k - n)\<rfloor>, n - int k)"
| "shortest (Suc fuel) k x n =
     (case candidates x (nat \<lfloor>scale10 x (int k - n)\<rfloor>) (n - int k) of
        Some r \<Rightarrow> r
      | None \<Rightarrow> shortest fuel (k + 1) x n)"

text \<open>
  The layout of \<open>Number::toString\<close> from the digit string \<open>s\<close> (no trailing zero), its
  length \<open>k\<close> and the position \<open>n\<close> of the decimal point: plain notation for
  \<open>-6 < n \<le> 21\<close>, exponent notation otherwise.
\<close>

definition layoutDigits :: "string \<Rightarrow> int \<Rightarrow> string" where
  "layoutDigits s n =
     (let k = int (length s)
      in if k \<le> n \<and> n \<le> 21 then s @ replicate (nat (n - k)) (CHR ''0'')
         else if 0 < n \<and> n \<le> 21 then take (nat n) s @ ''.'' @ drop (nat n) s
         else if - 6 < n \<and> n \<le> 0 then ''0.'' @ replicate (nat (- n)) (CHR ''0'') @ s
         else (let e = n - 1;
                   etxt = (if e < 0 then ''-'' else ''+'') @ natDigits (nat \<bar>e\<bar>)
               in if k = 1 then s @ ''e'' @ etxt
                  else take 1 s @ ''.'' @ drop 1 s @ ''e'' @ etxt))"

definition digitsLayout :: "nat \<times> int \<Rightarrow> string" where
  "digitsLayout r =
     layoutDigits (stripTrailingZeros (natDigits (fst r))) (snd r + int (length (natDigits (fst r))))"

definition posToString :: "real \<Rightarrow> string" where
  "posToString x = digitsLayout (shortest 17 1 x (pointPosition x))"

definition realToString :: "real \<Rightarrow> string" where
  "realToString x =
     (if x = 0 then ''0'' else if x < 0 then ''-'' @ posToString (- x) else posToString x)"

fun numToString :: "jsnum \<Rightarrow> string" where
  "numToString NaN = ''NaN''"
| "numToString PosInf = ''Infinity''"
| "numToString NegInf = ''-Infinity''"
| "numToString (Fin d) = realToString (valueOf d)"

text \<open>
  \<open>num.toFixed(2)\<close>: below \<open>10^21\<close> the multiple of \<open>1/100\<close> nearest to the exact value
  of the double (the larger one on a tie) with exactly two digits after the point;
  from \<open>10^21\<close> on, \<open>toString\<close>.
\<close>

definition hundredths :: "nat \<Rightarrow> string" where
  "hundredths n = natDigits (n div 100) @ ''.'' @ [digitChar (n mod 100 div 10), digitChar (n mod 10)]"

definition realToFixed2 :: "real \<Rightarrow> string" where
  "realToFixed2 x =
     (if \<bar>x\<bar> \<ge> 10 ^ 21 then realToString x
      else if x < 0 then ''-'' @ hundredths (nat \<lfloor>\<bar>x\<bar> * 100 + 1 / 2\<rfloor>)
      else hundredths (nat \<lfloor>\<bar>x\<bar> * 100 + 1 / 2\<rfloor>))"

fun toFixed2 :: "jsnum \<Rightarrow> string" where
  "toFixed2 NaN = ''NaN''"
| "toFixed2 PosInf = ''Infinity''"
| "toFixed2 NegInf = ''-Infinity''"
| "toFixed2 (Fin d) = realToFixed2 (valueOf d)"

subsection \<open>Strings to numbers\<close>

definition digitsValue :: "string \<Rightarrow> nat" where
  "digitsValue ds = foldl (\<lambda>a c. 10 * a + digitVal c) 0 ds"

text \<open>An exponent part \<open>e[+-]?digits\<close> at the head of the input, if there is one.\<close>

definition parseExponent :: "string \<Rightarrow> (int \<times> string) option" where
  "parseExponent s =
     (case s of
        [] \<Rightarrow> None
      | c # cs \<Rightarrow>
          if c = CHR ''e'' \<or> c = CHR ''E'' then
            (let (sgn, r) = (case cs of
                               [] \<Rightarrow> (1, cs)
                             | d # ds \<Rightarrow> if d = CHR ''+'' then (1, ds)
                                         else if d = CHR ''-'' then (- 1, ds) else (1, cs));
                 es = takeWhile isDigit r
             in if es = [] then None
                else Some (sgn * int (digitsValue es), dropWhile isDigit r))
          else None)"

text \<open>
  The longest prefix that is a \<open>StrUnsignedDecimalLiteral\<close>: \<open>Infinity\<close>, or digits
  with an optional fraction (at least one digit on one side of the point) and an
  optional exponent. The result is the number its mathematical value denotes, and
  the rest of the input.
\<close>

definition parseUnsignedDecimal :: "string \<Rightarrow> (jsnum \<times> string) option" where
  "parseUnsignedDecimal s =
     (if take 8 s = ''Infinity'' then Some (PosInf, drop 8 s)
      else (let ip = takeWhile isDigit s;
                r1 = dropWhile isDigit s;
                (fp, r2) = (case r1 of
                              [] \<Rightarrow> ([], r1)
                            | c # cs \<Rightarrow> if c = CHR ''.''
                                        then (takeWhile isDigit cs, dropWhile isDigit cs)
                                        else ([], r1))
            in if ip = [] \<and> fp = [] then None
               else (let m = real (digitsValue (ip @ fp)) / 10 ^ length fp
                     in case parseExponent r2 of
                          None \<Rightarrow> Some (toDouble m, r2)
                        | Some (e, r3) \<Rightarrow> Some (toDouble (scale10 m e), r3))))"

definition parseStrDecimalLiteral :: "string \<Rightarrow> (jsnum \<times> string) option" where
  "parseStrDecimalLiteral s =
     (case s of
        [] \<Rightarrow> None
      | c # cs \<Rightarrow>
          if c = CHR ''+'' then parseUnsignedDecimal cs
          else if c = CHR ''-'' then
            (case parseUnsignedDecimal cs of
               None \<Rightarrow> None
             | Some (v, r) \<Rightarrow> Some (num_neg v, r))
          else parseUnsignedDecimal (c # cs))"

text \<open>Hexadecimal, octal and binary integer literals (\<open>0x1F\<close>, \<open>0o17\<close>, \<open>0b101\<close>).\<close>

definition radixDigit :: "char \<Rightarrow> nat option" where
  "radixDigit c = (let n = (of_char c :: nat) in
     if 48 \<le> n \<and> n \<le> 57 then Some (n - 48)
     else if 97 \<le> n \<and> n \<le> 102 then Some (n - 87)
     else if 65 \<le> n \<and> n \<le> 70 then Some (n - 55)
     else None)"

fun radixValue :: "nat \<Rightarrow> nat \<Rightarrow> string \<Rightarrow> nat option" where
  "radixValue base acc [] = Some acc"
| "radixValue base acc (c # cs) =
     (case radixDigit c of
        None \<Rightarrow> None
      | Some d \<Rightarrow> if d < base then radixValue base (acc * base + d) cs else None)"

definition parseNonDecimal :: "string \<Rightarrow> nat option" where
  "parseNonDecimal s =
     (case s of
        z # p # d # ds \<Rightarrow>
          if z = CHR ''0'' then
            (if p = CHR ''x'' \<or> p = CHR ''X'' then radixValue 16 0 (d # ds)
             else if p = CHR ''o'' \<or> p = CHR ''O'' then radixValue 8 0 (d # ds)
             else if p = CHR ''b'' \<or> p = CHR ''B'' then radixValue 2 0 (d # ds)
             else None)
          else None
      | _ \<Rightarrow> None)"

text \<open>\<open>Number(s)\<close> for a string: the whole trimmed string is a numeric literal, or it is empty.\<close>

definition strToNumber :: "string \<Rightarrow> jsnum" where
  "strToNumber s =
     (let t = trim s
      in if t = [] then toDouble 0
         else (case parseNonDecimal t of
                 Some n \<Rightarrow> toDouble (real n)
               | None \<Rightarrow>
                   (case parseStrDecimalLiteral t of
                      None \<Rightarrow> NaN
                    | Some (v, r) \<Rightarrow> if r = [] then v else NaN)))"

text \<open>\<open>parseFloat(s)\<close>: the longest decimal literal after leading white space.\<close>

definition parseFloat :: "string \<Rightarrow> jsnum" where
  "parseFloat s =
     (case parseStrDecimalLiteral (dropWhile isSpace s) of
        None \<Rightarrow> NaN
      | Some (v, r) \<Rightarrow> v)"

subsection \<open>Conversions and operators on values\<close>

fun toNumber :: "jsval \<Rightarrow> jsnum" where
  "toNumber Undefined = NaN"
| "toNumber Null = toDouble 0"
| "toNumber (Bool b) = (if b then toDouble 1 else toDouble 0)"
| "toNumber (Num n) = n"
| "toNumber (Str s) = strToNumber s"

fun toString :: "jsval \<Rightarrow> string" where
  "toString Undefined = ''undefined''"
| "toString Null = ''null''"
| "toString (Bool b) = (if b then ''true'' else ''false'')"
| "toString (Num n) = numToString n"
| "toString (Str s) = s"

text \<open>The global \<open>isNaN(v)\<close> converts its argument to a number first.\<close>

definition isNaN :: "jsval \<Rightarrow> bool" where
  "isNaN v = (toNumber v = NaN)"

text \<open>\<open>a === b\<close>: same type and same value; \<open>NaN\<close> is not equal to itself.\<close>

fun strictEq :: "jsval \<Rightarrow> jsval \<Rightarrow> bool" where
  "strictEq (Num a) (Num b) = (if a = NaN then False else a = b)"
| "strictEq a b = (a = b)"

text \<open>Truthiness: \<open>0\<close>, \<open>NaN\<close>, the empty string, \<open>false\<close>, \<open>null\<close> and \<open>undefined\<close> are falsy.\<close>

fun truthy :: "jsval \<Rightarrow> bool" where
  "truthy Undefined = False"
| "truthy Null = False"
| "truthy (Bool b) = b"
| "truthy (Num n) = (if n = NaN then False else if n = toDouble 0 then False else True)"
| "truthy (Str s) = (if s = [] then False else True)"

section \<open>The comparison engine\<close>

subsection \<open>Configuration and number formatting\<close>

text \<open>\<open>CONFIG.NUMERIC_EPSILON\<close> is the literal \<open>0.000001\<close>.\<close>

definition NUMERIC_EPSILON :: jsnum where
  "NUMERIC_EPSILON = toDouble (1 / 1000000)"

text \<open>
  The replacement \<open>/\B(?=(\d{3})+(?!\d))/g\<close> by a comma: a comma goes in front of a
  character when the character before it is a word character (so the position is not
  a word boundary; the position in front of a digit is one otherwise) and the run of
  digits starting there has a positive length divisible by three.
\<close>

definition digitRun :: "string \<Rightarrow> nat" where
  "digitRun s = length (takeWhile isDigit s)"

fun groupAfter :: "char \<Rightarrow> string \<Rightarrow> string" where
  "groupAfter prev [] = []"
| "groupAfter prev (c # cs) =
     (if isWordChar prev \<and> 0 < digitRun (c # cs) \<and> digitRun (c # cs) mod 3 = 0
      then CHR '','' # c # groupAfter c cs
      else c # groupAfter c cs)"

definition groupThousands :: "string \<Rightarrow> string" where
  "groupThousands s = (case s of [] \<Rightarrow> [] | c # cs \<Rightarrow> c # groupAfter c cs)"

text \<open>
  \<open>Utils.formatNumber(num)\<close>: round to two decimals (\<open>Number(num.toFixed(2))\<close>), print,
  and group the part before the first point in thousands.
\<close>

definition formatNumber :: "jsnum \<Rightarrow> string" where
  "formatNumber num =
     (let rounded = strToNumber (toFixed2 num);
          parts = splitOn (CHR ''.'') (numToString rounded)
      in case parts of
           [] \<Rightarrow> []
         | p # ps \<Rightarrow> joinWith (CHR ''.'') (groupThousands p # ps))"

subsection \<open>Workbooks and the state of the comparator\<close>

text \<open>
  A cell object of the spreadsheet library has a value \<open>v\<close> (\<open>undefined\<close> when the
  field is missing) and may have a number format \<open>z\<close>. A worksheet maps cell
  addresses to cell objects; an address such as \<open>B3\<close> is modelled by the pair
  (row, column) that \<open>XLSX.utils.encode_cell\<close> and \<open>decode_cell\<close> translate it from
  and to. The array of rows that \<open>XLSX.utils.sheet_to_json(sheet, {header: 1, defval: ''})\<close>
  returns is computed by the library and is a field of the worksheet here.
\<close>

record cell =
  cell_v :: jsval
  cell_z :: "string option"

type_synonym cellRef = "nat \<times> nat"

type_synonym matrix = "jsval list list"

record worksheet =
  cells :: "cellRef \<Rightarrow> cell option"
  sheet_to_json :: matrix

record workbook =
  SheetNames :: "string list"
  Sheets :: "string \<Rightarrow> worksheet option"

record difference =
  d_sheet :: string
  d_row :: nat
  d_col :: nat
  d_cellRef :: cellRef
  d_originalValue :: jsval
  d_modifiedValue :: jsval

record comparisonResult =
  differences :: "difference list"
  totalDifferences :: nat
  sheetsCompared :: nat

text \<open>
  The fields of \<open>ExcelComparator\<close> the engine reads and writes. The keys
  \<open>`${row}-${col}`\<close> of a sheet's change set are modelled by the pairs (row, column).
\<close>

record comparator =
  originalData :: "workbook option"
  modifiedData :: "workbook option"
  comparisonResult :: "comparisonResult option"
  differenceMap :: "string \<Rightarrow> cellRef set option"
  reportFormat :: string
  reportWorkbook :: "(string \<times> matrix) list option"

datatype error = TypeError | Error string

text \<open>\<open>workbook.Sheets[sheetName]\<close> and \<open>sheet[cellRef]\<close>; \<open>None\<close> is \<open>undefined\<close>.\<close>

definition lookupSheet :: "workbook option \<Rightarrow> string \<Rightarrow> worksheet option" where
  "lookupSheet wb sheetName = (case wb of None \<Rightarrow> None | Some w \<Rightarrow> Sheets w sheetName)"

definition cellInfoOf :: "worksheet option \<Rightarrow> cellRef \<Rightarrow> cell option" where
  "cellInfoOf sheet ref = (case sheet of None \<Rightarrow> None | Some ws \<Rightarrow> cells ws ref)"

text \<open>\<open>sheet_to_json\<close> of a sheet that does not exist is the empty array.\<close>

definition rowsOf :: "worksheet option \<Rightarrow> matrix" where
  "rowsOf sheet = (case sheet of None \<Rightarrow> [] | Some ws \<Rightarrow> sheet_to_json ws)"

subsection \<open>Value Classifier\<close>

text \<open>\<open>getNumericValue(value, isPercentage)\<close>; \<open>None\<close> is \<open>null\<close>.\<close>

fun getNumericValue :: "jsval \<Rightarrow> bool \<Rightarrow> jsnum option" where
  "getNumericValue (Num n) isPercentage = Some (if isPercentage then num_times100 n else n)"
| "getNumericValue (Str s) isPercentage =
     (if trim s = [] then None
      else (let trimmedValue = trim s
            in if endsWithPercent trimmedValue \<and> \<not> isNaN (Str (butlast trimmedValue))
               then Some (parseFloat (butlast trimmedValue))
               else (let cleanValue = filter (\<lambda>c. c \<noteq> CHR '','') trimmedValue
                     in if isNaN (Str cleanValue) then None
                        else Some (parseFloat cleanValue))))"
| "getNumericValue x isPercentage = None"

fun extractPercentageValue :: "jsval \<Rightarrow> jsnum option" where
  "extractPercentageValue (Num n) =
     (if num_ge n (toDouble 0) \<and> num_le n (toDouble 1) then Some (num_times100 n) else None)"
| "extractPercentageValue (Str s) =
     (if endsWithPercent (trim s)
      then (let percentStr = butlast (trim s)
            in if isNaN (Str percentStr) then None else Some (parseFloat percentStr))
      else None)"
| "extractPercentageValue x = None"

text \<open>
  \<open>isPercentageCell(originalCell, sheetName, cellRef, value)\<close> makes three tests in
  turn. The first: the cell has a format code that contains \<open>%\<close> or \<open>percent\<close>.
\<close>

definition formatSignal :: "cell option \<Rightarrow> bool" where
  "formatSignal originalCell =
     (case originalCell of
        None \<Rightarrow> False
      | Some c \<Rightarrow>
          (case cell_z c of
             None \<Rightarrow> False
           | Some fz \<Rightarrow>
               if fz = [] then False
               else (let formatCode = toLowerCase fz
                     in str_includes formatCode ''%'' \<or> str_includes formatCode ''percent'')))"

text \<open>
  The second: the cell in row 0 of the same column of \<open>this.originalData\<close> has a text
  that contains \<open>%\<close>, \<open>percent\<close>, \<open>rate\<close> or \<open>ratio\<close>. A sheet that does not exist
  makes the lookup throw, which the \<open>try\<close> block swallows. An encoded cell address is
  never the empty string, so the test of \<open>cellRef\<close> always passes.
\<close>

definition headerSignal :: "comparator \<Rightarrow> string \<Rightarrow> cellRef \<Rightarrow> bool" where
  "headerSignal this sheetName ref =
     (if sheetName = [] \<or> originalData this = None then False
      else (case cellInfoOf (lookupSheet (originalData this) sheetName) (0, snd ref) of
              None \<Rightarrow> False
            | Some headerCell \<Rightarrow>
                if truthy (cell_v headerCell)
                then (let headerText = toLowerCase (toString (cell_v headerCell))
                      in str_includes headerText ''%'' \<or> str_includes headerText ''percent'' \<or>
                         str_includes headerText ''rate'' \<or> str_includes headerText ''ratio'')
                else False))"

text \<open>
  The third: a number of magnitude in \<open>(0, 1]\<close> whose printed form has at least two
  digits after the point, and whose magnitude is at least \<open>0.001\<close>.
\<close>

definition magnitudeHeuristic :: "jsval \<Rightarrow> bool" where
  "magnitudeHeuristic val =
     (case val of
        Num n \<Rightarrow>
          if num_le (num_abs n) (toDouble 1) \<and> num_gt (num_abs n) (toDouble 0)
          then (let valueStr = numToString n
                in case splitOn (CHR ''.'') valueStr of
                     p # decimalPart # ps \<Rightarrow>
                       if decimalPart = [] then False
                       else if 2 \<le> length decimalPart
                       then (let absValue = num_abs n
                             in num_ge absValue (toDouble (1 / 1000)) \<and> num_le absValue (toDouble 1))
                       else False
                   | _ \<Rightarrow> False)
          else False
      | _ \<Rightarrow> False)"

definition isPercentageCell :: "comparator \<Rightarrow> cell option \<Rightarrow> string \<Rightarrow> cellRef \<Rightarrow> jsval \<Rightarrow> bool" where
  "isPercentageCell this originalCell sheetName ref val =
     (if formatSignal originalCell then True
      else if headerSignal this sheetName ref then True
      else magnitudeHeuristic val)"

text \<open>
  \<open>formatValue(value, originalCell, sheetName, cellRef)\<close>. In the percentage branch
  \<open>value * 100\<close> and \<open>value < 0\<close> convert the value to a number first.
\<close>

definition formatValue :: "comparator \<Rightarrow> jsval \<Rightarrow> cell option \<Rightarrow> string \<Rightarrow> cellRef \<Rightarrow> jsval" where
  "formatValue this val originalCell sheetName ref =
     (if isPercentageCell this originalCell sheetName ref val
      then (let percentValue = num_abs (strToNumber (toFixed2 (num_times100 (toNumber val))));
                sign = (if num_lt (toNumber val) (toDouble 0) then ''-'' else [])
            in Str (sign @ formatNumber percentValue @ ''%''))
      else (case val of
              Num n \<Rightarrow> Str (formatNumber n)
            | Str s \<Rightarrow>
                if trim s = [] then val
                else (let trimmedValue = trim s
                      in if endsWithPercent trimmedValue \<and> \<not> isNaN (Str (butlast trimmedValue))
                         then Str (formatNumber (num_abs (parseFloat (butlast trimmedValue))) @ ''%'')
                         else if isNaN (Str trimmedValue) then val
                         else Str (formatNumber (parseFloat trimmedValue)))
            | _ \<Rightarrow> val))"

subsection \<open>Cell Differ\<close>

definition valuesAreDifferent :: "jsval \<Rightarrow> jsval \<Rightarrow> bool" where
  "valuesAreDifferent originalValue modifiedValue =
     (if strictEq originalValue modifiedValue then False
      else (case (getNumericValue originalValue False, getNumericValue modifiedValue False) of
              (Some originalNumeric, Some modifiedNumeric) \<Rightarrow>
                num_gt (num_abs (num_sub originalNumeric modifiedNumeric)) NUMERIC_EPSILON
            | _ \<Rightarrow>
                (case (extractPercentageValue originalValue, extractPercentageValue modifiedValue) of
                   (Some originalPercent, Some modifiedPercent) \<Rightarrow>
                     num_gt (num_abs (num_sub originalPercent modifiedPercent)) NUMERIC_EPSILON
                 | _ \<Rightarrow> trim (toString originalValue) \<noteq> trim (toString modifiedValue))))"

subsection \<open>Sheet Aligner\<close>

text \<open>
  The cell accessor \<open>(sheet[row] && sheet[row][col]) || ''\<close>, written out at every
  place the engine reads a matrix: a row or a cell that is not there is
  \<open>undefined\<close>, and every falsy value is replaced by the empty string.
\<close>

definition rawCell :: "matrix \<Rightarrow> nat \<Rightarrow> nat \<Rightarrow> jsval" where
  "rawCell sheet row col =
     (if row < length sheet
      then (if col < length (sheet ! row) then sheet ! row ! col else Undefined)
      else Undefined)"

definition cellAt :: "matrix \<Rightarrow> nat \<Rightarrow> nat \<Rightarrow> jsval" where
  "cellAt sheet row col =
     (let x = rawCell sheet row col in if truthy x then x else Str [])"

text \<open>
  \<open>Math.max(...rows.map(row => row.length))\<close>. For an empty array the source gets
  \<open>-Infinity\<close>, which as a loop bound behaves as \<open>0\<close> does.
\<close>

definition maxRowLength :: "matrix \<Rightarrow> nat" where
  "maxRowLength rows = foldr max (map length rows) 0"

definition maxRowsOf :: "matrix \<Rightarrow> matrix \<Rightarrow> nat" where
  "maxRowsOf originalSheet modifiedSheet = max (length originalSheet) (length modifiedSheet)"

definition maxColsOf :: "matrix \<Rightarrow> matrix \<Rightarrow> nat" where
  "maxColsOf originalSheet modifiedSheet = max (maxRowLength originalSheet) (maxRowLength modifiedSheet)"

text \<open>The body of the two nested loops of \<open>compareFiles\<close> for one sheet, row by row.\<close>

definition cellDifference :: "string \<Rightarrow> matrix \<Rightarrow> matrix \<Rightarrow> nat \<Rightarrow> nat \<Rightarrow> difference list" where
  "cellDifference sheetName originalSheet modifiedSheet row col =
     (let originalValue = cellAt originalSheet row col;
          modifiedValue = cellAt modifiedSheet row col
      in if valuesAreDifferent originalValue modifiedValue
         then [\<lparr> d_sheet = sheetName, d_row = row + 1, d_col = col + 1, d_cellRef = (row, col),
                 d_originalValue = originalValue, d_modifiedValue = modifiedValue \<rparr>]
         else [])"

definition sheetDifferenceList :: "string \<Rightarrow> matrix \<Rightarrow> matrix \<Rightarrow> difference list" where
  "sheetDifferenceList sheetName originalSheet modifiedSheet =
     concat (map (\<lambda>row.
        concat (map (\<lambda>col. cellDifference sheetName originalSheet modifiedSheet row col)
                    [0..<maxColsOf originalSheet modifiedSheet]))
        [0..<maxRowsOf originalSheet modifiedSheet])"

text \<open>The set \<open>sheetDifferences\<close> of one sheet: the coordinates of its records.\<close>

definition sheetDifferenceSet :: "string \<Rightarrow> matrix \<Rightarrow> matrix \<Rightarrow> cellRef set" where
  "sheetDifferenceSet sheetName originalSheet modifiedSheet =
     set (map d_cellRef (sheetDifferenceList sheetName originalSheet modifiedSheet))"

text \<open>
  \<open>compareFiles()\<close> walks the sheet names of the original workbook. Reading
  \<open>this.originalData.SheetNames\<close> throws when no original workbook is loaded, and
  reading \<open>this.modifiedData.Sheets\<close> throws at the first sheet when no modified one is.
  The names of the two files and the time stamp of the result are left out.
\<close>

definition compareFiles :: "comparator \<Rightarrow> error + comparator" where
  "compareFiles this =
     (case originalData this of
        None \<Rightarrow> Inl TypeError
      | Some od \<Rightarrow>
          if modifiedData this = None \<and> SheetNames od \<noteq> [] then Inl TypeError
          else (let sheetNames = SheetNames od;
                    originalOf = (\<lambda>sheetName. rowsOf (Sheets od sheetName));
                    modifiedOf = (\<lambda>sheetName. rowsOf (lookupSheet (modifiedData this) sheetName));
                    diffs = concat (map (\<lambda>sheetName.
                              sheetDifferenceList sheetName (originalOf sheetName) (modifiedOf sheetName))
                              sheetNames);
                    dmap = foldl (\<lambda>m sheetName.
                              m(sheetName \<mapsto>
                                sheetDifferenceSet sheetName (originalOf sheetName) (modifiedOf sheetName)))
                              (differenceMap this) sheetNames
                in Inr (this\<lparr> differenceMap := dmap,
                               comparisonResult := Some \<lparr> differences = diffs,
                                                          totalDifferences = length diffs,
                                                          sheetsCompared = length sheetNames \<rparr> \<rparr>)))"

subsection \<open>Structure Validator\<close>

record validation =
  isValid :: bool
  message :: "string option"

text \<open>
  The loop over the positions of \<open>validateStructures\<close>, entered when the two lists
  have the same length. Reading past the end of the modified list gives \<open>undefined\<close>,
  which the message would print as such.
\<close>

definition namesMessage :: "string \<Rightarrow> string \<Rightarrow> string" where
  "namesMessage a b = ''Sheet names don't match: \"'' @ a @ ''\" vs \"'' @ b @ ''\"''"

definition countMessage :: "nat \<Rightarrow> nat \<Rightarrow> string" where
  "countMessage n m =
     ''Different number of sheets: Original has '' @ natDigits n @ '', Modified has '' @ natDigits m"

fun compareNames :: "string list \<Rightarrow> string list \<Rightarrow> validation" where
  "compareNames [] ms = \<lparr> isValid = True, message = None \<rparr>"
| "compareNames (a # as) [] = \<lparr> isValid = False, message = Some (namesMessage a ''undefined'') \<rparr>"
| "compareNames (a # as) (b # bs) =
     (if a \<noteq> b then \<lparr> isValid = False, message = Some (namesMessage a b) \<rparr>
      else compareNames as bs)"

definition validateStructures :: "comparator \<Rightarrow> error + validation" where
  "validateStructures this =
     (case originalData this of
        None \<Rightarrow> Inl TypeError
      | Some od \<Rightarrow>
          (case modifiedData this of
             None \<Rightarrow> Inl TypeError
           | Some md \<Rightarrow>
               (let originalSheets = SheetNames od;
                    modifiedSheets = SheetNames md
                in if length originalSheets \<noteq> length modifiedSheets
                   then Inr \<lparr> isValid = False,
                              message = Some (countMessage (length originalSheets) (length modifiedSheets)) \<rparr>
                   else Inr (compareNames originalSheets modifiedSheets))))"

subsection \<open>Report Renderer\<close>

definition isBlank :: "jsval \<Rightarrow> bool" where
  "isBlank x = (x = Str [] \<or> x = Null \<or> x = Undefined)"

text \<open>\<open>typeof formatted === 'string' && formatted.includes('%')\<close>.\<close>

definition stringWithPercent :: "jsval \<Rightarrow> bool" where
  "stringWithPercent formatted = (case formatted of Str s \<Rightarrow> str_includes s ''%'' | _ \<Rightarrow> False)"

definition createValueComparisonSingleCell ::
  "comparator \<Rightarrow> jsval \<Rightarrow> jsval \<Rightarrow> cell option \<Rightarrow> cell option \<Rightarrow> string \<Rightarrow> cellRef \<Rightarrow> string" where
  "createValueComparisonSingleCell this originalValue modifiedValue originalCellInfo modifiedCellInfo
       sheetName ref =
     (if isBlank originalValue \<and> isBlank modifiedValue then []
      else (let formattedOriginal = formatValue this originalValue originalCellInfo sheetName ref;
                formattedModified = formatValue this modifiedValue modifiedCellInfo sheetName ref;
                originalIsPercentage =
                  (isPercentageCell this originalCellInfo sheetName ref originalValue \<or>
                   stringWithPercent formattedOriginal);
                modifiedIsPercentage =
                  (isPercentageCell this modifiedCellInfo sheetName ref modifiedValue \<or>
                   stringWithPercent formattedModified);
                originalNumeric = getNumericValue originalValue originalIsPercentage;
                modifiedNumeric = getNumericValue modifiedValue modifiedIsPercentage;
                result = ''Original Value: '' @ toString formattedOriginal @
                         '', Changed Value: '' @ toString formattedModified
            in case (originalNumeric, modifiedNumeric) of
                 (Some on, Some mn) \<Rightarrow>
                   if originalIsPercentage \<and> modifiedIsPercentage
                   then (let difference = num_sub mn on;
                             sign = (if num_gt difference (toDouble 0) then ''+''
                                     else (if num_lt difference (toDouble 0) then [] else []));
                             formattedDiff = formatNumber (num_abs difference)
                         in if num_gt (num_abs difference) NUMERIC_EPSILON
                            then result @ '', Difference: '' @ sign @ formattedDiff @ ''%''
                            else result @ '', Difference: 0%'')
                   else if \<not> originalIsPercentage \<and> \<not> modifiedIsPercentage
                   then (let difference = num_sub mn on;
                             sign = (if num_gt difference (toDouble 0) then ''+''
                                     else (if num_lt difference (toDouble 0) then [] else []));
                             formattedDiff = formatNumber (num_abs difference)
                         in if num_gt (num_abs difference) NUMERIC_EPSILON
                            then result @ '', Difference: '' @ sign @ formattedDiff
                            else result @ '', Difference: 0'')
                   else result @ '', Difference: N/A (type mismatch)''
               | _ \<Rightarrow> result @ '', Difference: N/A (non-numeric)''))"

record multiCell =
  original :: jsval
  changed :: jsval
  difference :: string

definition createValueComparisonMultiCell ::
  "comparator \<Rightarrow> jsval \<Rightarrow> jsval \<Rightarrow> cell option \<Rightarrow> cell option \<Rightarrow> string \<Rightarrow> cellRef \<Rightarrow> multiCell" where
  "createValueComparisonMultiCell this originalValue modifiedValue originalCellInfo modifiedCellInfo
       sheetName ref =
     (if isBlank originalValue \<and> isBlank modifiedValue
      then \<lparr> original = Str [], changed = Str [], difference = [] \<rparr>
      else (let formattedOriginal = formatValue this originalValue originalCellInfo sheetName ref;
                formattedModified = formatValue this modifiedValue modifiedCellInfo sheetName ref;
                originalIsPercentage =
                  (isPercentageCell this originalCellInfo sheetName ref originalValue \<or>
                   stringWithPercent formattedOriginal);
                modifiedIsPercentage =
                  (isPercentageCell this modifiedCellInfo sheetName ref modifiedValue \<or>
                   stringWithPercent formattedModified);
                originalNumeric = getNumericValue originalValue originalIsPercentage;
                modifiedNumeric = getNumericValue modifiedValue modifiedIsPercentage;
                differenceText =
                  (case (originalNumeric, modifiedNumeric) of
                     (Some on, Some mn) \<Rightarrow>
                       if originalIsPercentage \<and> modifiedIsPercentage
                       then (let difference = num_sub mn on;
                                 sign = (if num_gt difference (toDouble 0) then ''+''
                                         else (if num_lt difference (toDouble 0) then [] else []));
                                 formattedDiff = formatNumber (num_abs difference)
                             in if num_gt (num_abs difference) NUMERIC_EPSILON
                                then sign @ formattedDiff @ ''%''
                                else ''0%'')
                       else if \<not> originalIsPercentage \<and> \<not> modifiedIsPercentage
                       then (let difference = num_sub mn on;
                                 sign = (if num_gt difference (toDouble 0) then ''+''
                                         else (if num_lt difference (toDouble 0) then [] else []));
                                 formattedDiff = formatNumber (num_abs difference)
                             in if num_gt (num_abs difference) NUMERIC_EPSILON
                                then sign @ formattedDiff
                                else ''0'')
                       else ''N/A (type mismatch)''
                   | _ \<Rightarrow> ''N/A (non-numeric)'')
            in \<lparr> original = formattedOriginal, changed = formattedModified,
                 difference = differenceText \<rparr>))"

text \<open>
  The first loop of a row: does any column from 1 on differ? It stops at the first
  one that does.
\<close>

definition hasAnyDifference :: "matrix \<Rightarrow> matrix \<Rightarrow> nat \<Rightarrow> nat \<Rightarrow> bool" where
  "hasAnyDifference originalRows modifiedRows maxCols row =
     list_ex (\<lambda>col. valuesAreDifferent (cellAt originalRows row col) (cellAt modifiedRows row col))
       [1..<maxCols]"

text \<open>The cell of column 0: the field name of the original, tagged when the row changed.\<close>

definition labelCell :: "bool \<Rightarrow> jsval \<Rightarrow> jsval" where
  "labelCell changedRow originalValue =
     (if changedRow then Str (''[CHANGED] '' @ toString originalValue) else originalValue)"

text \<open>
  One output row of each layout. The two sheets are the results of
  \<open>this.originalData.Sheets[sheetName]\<close> and \<open>this.modifiedData.Sheets[sheetName]\<close>, from
  which the cell objects of the columns from 1 on are read.
\<close>

definition singleCellRow ::
  "comparator \<Rightarrow> worksheet option \<Rightarrow> worksheet option \<Rightarrow> matrix \<Rightarrow> matrix \<Rightarrow> string \<Rightarrow> nat \<Rightarrow> nat
     \<Rightarrow> jsval list" where
  "singleCellRow this originalSheet modifiedSheet originalRows modifiedRows sheetName maxCols row =
     map (\<lambda>col.
        (let originalValue = cellAt originalRows row col;
             modifiedValue = cellAt modifiedRows row col
         in if col = 0
            then labelCell (hasAnyDifference originalRows modifiedRows maxCols row) originalValue
            else Str (createValueComparisonSingleCell this originalValue modifiedValue
                        (cellInfoOf originalSheet (row, col)) (cellInfoOf modifiedSheet (row, col))
                        sheetName (row, col))))
       [0..<maxCols]"

definition multiCellRow ::
  "comparator \<Rightarrow> worksheet option \<Rightarrow> worksheet option \<Rightarrow> matrix \<Rightarrow> matrix \<Rightarrow> string \<Rightarrow> nat \<Rightarrow> nat
     \<Rightarrow> jsval list" where
  "multiCellRow this originalSheet modifiedSheet originalRows modifiedRows sheetName maxCols row =
     concat (map (\<lambda>col.
        (let originalValue = cellAt originalRows row col;
             modifiedValue = cellAt modifiedRows row col
         in if col = 0
            then [labelCell (hasAnyDifference originalRows modifiedRows maxCols row) originalValue]
            else (let r = createValueComparisonMultiCell this originalValue modifiedValue
                            (cellInfoOf originalSheet (row, col)) (cellInfoOf modifiedSheet (row, col))
                            sheetName (row, col)
                  in [original r, changed r, Str (difference r)])))
       [0..<maxCols])"

definition legendSingleCell :: matrix where
  "legendSingleCell =
     [[Str ''COMPARISON LEGEND''],
      [Str ''Red Circle = Field name where values have changed''],
      [Str ''No symbol = Field name where values are identical''],
      [Str ''Format: Single Cell (Original Value, Changed Value, Difference)''],
      [Str []],
      [Str ''Field Name'', Str ''Value Comparison''],
      [Str []]]"

definition legendMultiCell :: "nat \<Rightarrow> matrix" where
  "legendMultiCell maxCols =
     [[Str ''COMPARISON LEGEND''],
      [Str ''Red Circle = Field name where values have changed''],
      [Str ''No symbol = Field name where values are identical''],
      [Str ''Format: Multi Cell (Separate columns for Original, Changed, Difference)''],
      [Str []],
      Str ''Field Name'' #
        concat (map (\<lambda>col. [Str ''Original Value'', Str ''Changed Value'', Str ''Difference''])
                    [1..<maxCols]),
      [Str []]]"

text \<open>
  \<open>createComparisonDataSingleCell\<close> and \<open>createComparisonDataMultiCell\<close>. Reading a
  cell object of a sheet that does not exist throws; the first such read is at row 0
  and column 1, before which nothing but local arrays has been built.
\<close>

definition createComparisonDataSingleCell :: "comparator \<Rightarrow> matrix \<Rightarrow> matrix \<Rightarrow> string \<Rightarrow> error + matrix" where
  "createComparisonDataSingleCell this originalRows modifiedRows sheetName =
     (let maxRows = maxRowsOf originalRows modifiedRows;
          maxCols = maxColsOf originalRows modifiedRows;
          originalSheet = lookupSheet (originalData this) sheetName;
          modifiedSheet = lookupSheet (modifiedData this) sheetName
      in if 0 < maxRows \<and> 1 < maxCols \<and> (originalSheet = None \<or> modifiedSheet = None)
         then Inl TypeError
         else Inr (legendSingleCell @
                   map (singleCellRow this originalSheet modifiedSheet originalRows modifiedRows
                          sheetName maxCols)
                       [0..<maxRows]))"

definition createComparisonDataMultiCell :: "comparator \<Rightarrow> matrix \<Rightarrow> matrix \<Rightarrow> string \<Rightarrow> error + matrix" where
  "createComparisonDataMultiCell this originalRows modifiedRows sheetName =
     (let maxRows = maxRowsOf originalRows modifiedRows;
          maxCols = maxColsOf originalRows modifiedRows;
          originalSheet = lookupSheet (originalData this) sheetName;
          modifiedSheet = lookupSheet (modifiedData this) sheetName
      in if 0 < maxRows \<and> 1 < maxCols \<and> (originalSheet = None \<or> modifiedSheet = None)
         then Inl TypeError
         else Inr (legendMultiCell maxCols @
                   map (multiCellRow this originalSheet modifiedSheet originalRows modifiedRows
                          sheetName maxCols)
                       [0..<maxRows]))"

text \<open>
  \<open>createComparisonSheets\<close>: one sheet \<open>{sheetName}_Comparison\<close> per sheet of the original
  workbook, in the layout \<open>this.reportFormat\<close> selects; the first error ends the loop.
\<close>

fun createComparisonSheets :: "comparator \<Rightarrow> string list \<Rightarrow> error + (string \<times> matrix) list" where
  "createComparisonSheets this [] = Inr []"
| "createComparisonSheets this (sheetName # rest) =
     (if modifiedData this = None then Inl TypeError
      else (let originalRows = rowsOf (lookupSheet (originalData this) sheetName);
                modifiedRows = rowsOf (lookupSheet (modifiedData this) sheetName);
                comparisonData =
                  (if reportFormat this = ''single''
                   then createComparisonDataSingleCell this originalRows modifiedRows sheetName
                   else createComparisonDataMultiCell this originalRows modifiedRows sheetName)
            in case comparisonData of
                 Inl e \<Rightarrow> Inl e
               | Inr m \<Rightarrow>
                   (case createComparisonSheets this rest of
                      Inl e \<Rightarrow> Inl e
                    | Inr ms \<Rightarrow> Inr ((sheetName @ ''_Comparison'', m) # ms))))"

definition generateReport :: "comparator \<Rightarrow> error + comparator" where
  "generateReport this =
     (case originalData this of
        None \<Rightarrow> Inl TypeError
      | Some od \<Rightarrow>
          (case createComparisonSheets this (SheetNames od) of
             Inl e \<Rightarrow> Inl e
           | Inr ms \<Rightarrow> Inr (this\<lparr> reportWorkbook := Some ms \<rparr>)))"

subsection \<open>The comparison run\<close>

text \<open>
  \<open>performComparison()\<close>: clear the change sets, validate, compare, render. Whatever
  is thrown on the way ends the run (the \<open>catch\<close> block shows the message); the result
  is the outcome and the state the comparator is left in. Progress display and screen
  reader announcements are left out.
\<close>

definition performComparison :: "comparator \<Rightarrow> (error + unit) \<times> comparator" where
  "performComparison this =
     (let this1 = this\<lparr> differenceMap := Map.empty \<rparr>
      in case validateStructures this1 of
           Inl e \<Rightarrow> (Inl e, this1)
         | Inr structureValidation \<Rightarrow>
             if \<not> isValid structureValidation
             then (Inl (Error (case message structureValidation of None \<Rightarrow> [] | Some m \<Rightarrow> m)),
                   this1)
             else (case compareFiles this1 of
                     Inl e \<Rightarrow> (Inl e, this1)
                   | Inr this2 \<Rightarrow>
                       (case generateReport this2 of
                          Inl e \<Rightarrow> (Inl e, this2)
                        | Inr this3 \<Rightarrow> (Inr (), this3))))"

section \<open>Notions used to state the properties\<close>

text \<open>
  Lines 858 to 864 of the renderer classify each side of a pair on its own: is the
  value a percentage (by \<open>isPercentageCell\<close>, or because its formatted text contains
  \<open>%\<close>), and what is its numeric value under that classification.
\<close>

definition classifySide :: "comparator \<Rightarrow> jsval \<Rightarrow> cell option \<Rightarrow> string \<Rightarrow> cellRef \<Rightarrow> bool \<times> jsnum option" where
  "classifySide this val cellInfo sheetName ref =
     (let formatted = formatValue this val cellInfo sheetName ref;
          isPct = (isPercentageCell this cellInfo sheetName ref val \<or> stringWithPercent formatted)
      in (isPct, getNumericValue val isPct))"

text \<open>
  The \<open>difference\<close> the renderer computes, modified minus original, when both sides
  are numeric and of the same category.
\<close>

definition numericDelta ::
  "comparator \<Rightarrow> jsval \<Rightarrow> jsval \<Rightarrow> cell option \<Rightarrow> cell option \<Rightarrow> string \<Rightarrow> cellRef \<Rightarrow> jsnum option" where
  "numericDelta this originalValue modifiedValue originalCellInfo modifiedCellInfo sheetName ref =
     (case (classifySide this originalValue originalCellInfo sheetName ref,
            classifySide this modifiedValue modifiedCellInfo sheetName ref) of
        ((originalIsPercentage, Some on), (modifiedIsPercentage, Some mn)) \<Rightarrow>
          if originalIsPercentage = modifiedIsPercentage then Some (num_sub mn on) else None
      | _ \<Rightarrow> None)"

text \<open>
  The number whose magnitude \<open>valuesAreDifferent\<close> tests against the tolerance, in
  the numeric branch or else in the percentage branch, taken as modified minus
  original (the source subtracts the other way round, under \<open>Math.abs\<close>).
\<close>

definition differDelta :: "jsval \<Rightarrow> jsval \<Rightarrow> jsnum option" where
  "differDelta originalValue modifiedValue =
     (case (getNumericValue originalValue False, getNumericValue modifiedValue False) of
        (Some originalNumeric, Some modifiedNumeric) \<Rightarrow>
          Some (num_sub modifiedNumeric originalNumeric)
      | _ \<Rightarrow>
          (case (extractPercentageValue originalValue, extractPercentageValue modifiedValue) of
             (Some originalPercent, Some modifiedPercent) \<Rightarrow>
               Some (num_sub modifiedPercent originalPercent)
           | _ \<Rightarrow> None))"

text \<open>The text the renderer writes for a difference, before the \<open>%\<close> of a percentage.\<close>

definition signedDifferenceText :: "jsnum \<Rightarrow> string" where
  "signedDifferenceText d =
     (if num_gt (num_abs d) NUMERIC_EPSILON
      then (if num_gt d (toDouble 0) then ''+'' else []) @ formatNumber (num_abs d)
      else ''0'')"

text \<open>The digits after the point in the printed form of a number (\<open>valueStr.split('.')[1]\<close>).\<close>

definition decimalPartOf :: "jsnum \<Rightarrow> string" where
  "decimalPartOf n =
     (case splitOn (CHR ''.'') (numToString n) of
        p # decimalPart # ps \<Rightarrow> decimalPart
      | _ \<Rightarrow> [])"

text \<open>The exact value of a finite number.\<close>

definition realOf :: "jsnum \<Rightarrow> real" where
  "realOf n = (case n of Fin d \<Rightarrow> valueOf d | _ \<Rightarrow> 0)"

text \<open>A header text that names a percentage, as the header test of the classifier has it.\<close>

definition namesPercentage :: "string \<Rightarrow> bool" where
  "namesPercentage headerText =
     (str_includes headerText ''%'' \<or> str_includes headerText ''percent'' \<or>
      str_includes headerText ''rate'' \<or> str_includes headerText ''ratio'')"

text \<open>
  Workbooks for the examples: a sheet whose cell objects carry the values of the
  matrix and no number format, a workbook of one such sheet, and a comparator that
  has loaded two workbooks.
\<close>

definition plainSheet :: "matrix \<Rightarrow> worksheet" where
  "plainSheet rows =
     \<lparr> cells = (\<lambda>ref. if truthy (rawCell rows (fst ref) (snd ref))
                        then Some \<lparr> cell_v = rawCell rows (fst ref) (snd ref), cell_z = None \<rparr>
                        else None),
       sheet_to_json = rows \<rparr>"

definition oneSheetBook :: "string \<Rightarrow> matrix \<Rightarrow> workbook" where
  "oneSheetBook name rows =
     \<lparr> SheetNames = [name],
       Sheets = (\<lambda>n. if n = name then Some (plainSheet rows) else None) \<rparr>"

definition namedBook :: "string list \<Rightarrow> workbook" where
  "namedBook names =
     \<lparr> SheetNames = names,
       Sheets = (\<lambda>n. if n \<in> set names then Some (plainSheet []) else None) \<rparr>"

definition loaded :: "workbook \<Rightarrow> workbook \<Rightarrow> string \<Rightarrow> comparator" where
  "loaded od md fmt =
     \<lparr> originalData = Some od, modifiedData = Some md, comparisonResult = None,
       differenceMap = Map.empty, reportFormat = fmt, reportWorkbook = None \<rparr>"





text \<open>The example workbooks: one sheet \<open>Plan\<close> with a header row.\<close>

definition revenueOriginal :: matrix where
  "revenueOriginal =
     [[Str ''Item'', Str ''Amount'', Str ''Share''],
      [Str ''Revenue'', Num (toDouble 100), Str ''10%''],
      [Str ''Cost'', Num (toDouble 7), Str ''n/a'']]"

definition revenueModified :: matrix where
  "revenueModified =
     [[Str ''Item'', Str ''Amount'', Str ''Share''],
      [Str ''Revenue'', Num (toDouble 150), Num (toDouble (12 / 100))],
      [Str ''Cost'', Num (toDouble 7), Str ''n/a'']]"

definition revenueComparator :: comparator where
  "revenueComparator =
     loaded (oneSheetBook ''Plan'' revenueOriginal) (oneSheetBook ''Plan'' revenueModified) ''single''"

text \<open>The modified workbook again, its header row naming a rate and a percentage.\<close>

definition rateModified :: matrix where
  "rateModified =
     [[Str ''Item'', Str ''Growth Rate'', Str ''Share %''],
      [Str ''Revenue'', Num (toDouble 150), Num (toDouble (12 / 100))],
      [Str ''Cost'', Num (toDouble 7), Str ''n/a'']]"

definition rateComparator :: comparator where
  "rateComparator =
     loaded (oneSheetBook ''Plan'' revenueOriginal) (oneSheetBook ''Plan'' rateModified) ''single''"

text \<open>An amount that goes down from 150 to 100.\<close>

definition widgetOriginal :: matrix where
  "widgetOriginal = [[Str ''Item'', Str ''Amount''], [Str ''Widget'', Num (toDouble 150)]]"

definition widgetModified :: matrix where
  "widgetModified = [[Str ''Item'', Str ''Amount''], [Str ''Widget'', Num (toDouble 100)]]"

definition widgetComparator :: comparator where
  "widgetComparator =
     loaded (oneSheetBook ''Sheet1'' widgetOriginal) (oneSheetBook ''Sheet1'' widgetModified) ''single''"

text \<open>
  A row whose second cell is empty on one side and \<open>null\<close> on the other, and a row
  whose second cell holds 0 on one side and is missing on the other.
\<close>

definition blankOriginal :: matrix where
  "blankOriginal = [[Str ''Item'', Str ''Q1'', Str ''Q2''], [Str ''Rent'', Str [], Num (toDouble 5)]]"

definition blankModified :: matrix where
  "blankModified = [[Str ''Item'', Str ''Q1'', Str ''Q2''], [Str ''Rent'', Null, Num (toDouble 6)]]"

definition blankComparator :: comparator where
  "blankComparator =
     loaded (oneSheetBook ''Plan'' blankOriginal) (oneSheetBook ''Plan'' blankModified) ''single''"




text \<open>Two workbooks with the same two sheet names in a different order.\<close>

definition swappedComparator :: comparator where
  "swappedComparator = loaded (namedBook [''A'', ''B'']) (namedBook [''B'', ''A'']) ''single''"


text \<open>
  The original workbook with a header row that names a rate, compared with a modified
  workbook whose header row does not.
\<close>

definition growthOriginal :: matrix where
  "growthOriginal =
     [[Str ''Item'', Str ''Growth Rate'', Str ''Share''],
      [Str ''Revenue'', Num (toDouble 100), Str ''10%''],
      [Str ''Cost'', Num (toDouble 7), Str ''n/a'']]"

definition growthComparator :: comparator where
  "growthComparator =
     loaded (oneSheetBook ''Plan'' growthOriginal) (oneSheetBook ''Plan'' revenueModified) ''single''"

text \<open>The same original against the modified workbook whose header row names a rate too.\<close>

definition growthAgainstRate :: comparator where
  "growthAgainstRate =
     loaded (oneSheetBook ''Plan'' growthOriginal) (oneSheetBook ''Plan'' rateModified) ''multi''"

text \<open>A row without a field name on either side, whose second cell changes.\<close>

definition unnamedOriginal :: matrix where
  "unnamedOriginal = [[Str ''Item'', Str ''Q1''], [Str [], Num (toDouble 5)]]"

definition unnamedModified :: matrix where
  "unnamedModified = [[Str ''Item'', Str ''Q1''], [Null, Num (toDouble 6)]]"

definition unnamedComparator :: comparator where
  "unnamedComparator =
     loaded (oneSheetBook ''Plan'' unnamedOriginal) (oneSheetBook ''Plan'' unnamedModified) ''single''"

section \<open>Doubles: rounding stays within the doubles\<close>

lemma pow2_powr: "pow2 e = 2 powr (real_of_int e)"
proof (cases "0 \<le> e")
  case True
  then have "real_of_int e = real (nat e)" by simp
  then show ?thesis using True by (simp add: pow2_def powr_realpow del: of_nat_nat)
next
  case False
  then have "real_of_int e = - real (nat (- e))" by simp
  then show ?thesis using False
    by (simp add: pow2_def powr_minus powr_realpow inverse_eq_divide del: of_nat_nat)
qed

lemma pow2_pos: "0 < pow2 e"
  by (simp add: pow2_powr)

lemma pow2_add: "pow2 (a + b) = pow2 a * pow2 b"
  by (simp add: pow2_powr powr_add)

lemma pow2_zero: "pow2 0 = 1"
  by (simp add: pow2_def)

lemma pow2_one: "pow2 1 = 2"
  by (simp add: pow2_def)

lemma pow2_Suc: "pow2 (e + 1) = pow2 e * 2"
  by (simp add: pow2_add pow2_one)

lemma halvings_range: "0 \<le> halvings n x \<and> halvings n x \<le> int n"
  by (induction n arbitrary: x) auto

lemma halvings_upper: "halvings n x < int n \<Longrightarrow> x < 2 * pow2 (halvings n x)"
proof (induction n arbitrary: x)
  case 0
  then show ?case by simp
next
  case (Suc n)
  show ?case
  proof (cases "2 \<le> x")
    case True
    with Suc.prems have "halvings n (x / 2) < int n" by simp
    then have "x / 2 < 2 * pow2 (halvings n (x / 2))" by (rule Suc.IH)
    then show ?thesis using True by (simp add: pow2_Suc)
  next
    case False
    then show ?thesis by (simp add: pow2_zero)
  qed
qed

lemma doublings_range: "0 \<le> doublings n x \<and> doublings n x \<le> int n"
  by (induction n arbitrary: x) auto

lemma doublings_upper: "x < 1 \<Longrightarrow> x * pow2 (doublings n x) < 2"
proof (induction n arbitrary: x)
  case 0
  then show ?case by (simp add: pow2_zero)
next
  case (Suc n)
  show ?case
  proof (cases "x * 2 < 1")
    case True
    then have "x * 2 * pow2 (doublings n (x * 2)) < 2" by (rule Suc.IH)
    then show ?thesis using Suc.prems by (simp add: pow2_Suc mult.assoc mult.commute)
  next
    case False
    then have "doublings n (x * 2) = 0" by (cases n) simp_all
    with Suc.prems show ?thesis by (simp add: pow2_one)
  qed
qed

lemma exponentOf_range: "- 1022 \<le> exponentOf x \<and> exponentOf x \<le> 1023"
  using halvings_range [of 1023 x] doublings_range [of 1022 x]
  by (auto simp: exponentOf_def)

lemma exponentOf_upper:
  assumes "0 < x" and "exponentOf x < 1023"
  shows "x < pow2 (exponentOf x + 1)"
proof (cases "1 \<le> x")
  case True
  with assms have "halvings 1023 x < int 1023" by (simp add: exponentOf_def)
  then have "x < 2 * pow2 (halvings 1023 x)" by (rule halvings_upper)
  with True show ?thesis by (simp add: exponentOf_def pow2_Suc)
next
  case False
  then have "x * pow2 (doublings 1022 x) < 2" by (intro doublings_upper) simp
  moreover have "pow2 (- doublings 1022 x + 1) * pow2 (doublings 1022 x) = 2"
  proof -
    have "pow2 (- doublings 1022 x + 1) * pow2 (doublings 1022 x) =
            pow2 ((- doublings 1022 x + 1) + doublings 1022 x)"
      by (rule pow2_add [symmetric])
    then show ?thesis by (simp add: pow2_one)
  qed
  ultimately have "x * pow2 (doublings 1022 x) < pow2 (- doublings 1022 x + 1) * pow2 (doublings 1022 x)"
    by simp
  then have "x < pow2 (- doublings 1022 x + 1)"
    using pow2_pos [of "doublings 1022 x"] by simp
  with False show ?thesis by (simp add: exponentOf_def)
qed

lemma roundEven_le: "t \<le> real_of_int N \<Longrightarrow> roundEven t \<le> N"
  unfolding roundEven_def roundFrom_def by (auto; linarith)

lemma roundEven_nonneg: "0 \<le> t \<Longrightarrow> 0 \<le> roundEven t"
  unfolding roundEven_def roundFrom_def by (auto; linarith)

lemma nearestPos_in:
  assumes "0 < x" and "nearestPos x \<le> maxDouble"
  shows "nearestPos x \<in> doubleValues"
proof -
  define e where "e = exponentOf x"
  define u where "u = pow2 (e - 52)"
  define q where "q = roundEven (x / u)"
  have u: "0 < u" by (simp add: u_def pow2_pos)
  have np: "nearestPos x = real_of_int q * u"
    by (simp add: nearestPos_def roundTo_def e_def u_def q_def)
  have q0: "0 \<le> q" unfolding q_def using assms(1) u by (intro roundEven_nonneg) simp
  have er: "- 1022 \<le> e" "e \<le> 1023" using exponentOf_range [of x] by (simp_all add: e_def)
  show ?thesis
  proof (cases "q < 2 ^ 53")
    case True
    with q0 er np show ?thesis
      unfolding doubleValues_def u_def by (intro CollectI exI [of _ q] exI [of _ "e - 52"]) simp
  next
    case False
    have "e < 1023"
    proof (rule ccontr)
      assume "\<not> e < 1023"
      with er have "e = 1023" by simp
      then have "u = 2 ^ 971" by (simp add: u_def pow2_def)
      with assms(2) np have "real_of_int q * 2 ^ 971 \<le> (2 ^ 53 - 1) * 2 ^ 971"
        by (simp add: maxDouble_def)
      then have "real_of_int q \<le> real_of_int (2 ^ 53 - 1)" by simp
      then have "q \<le> 2 ^ 53 - 1" by (simp only: of_int_le_iff)
      with False show False by simp
    qed
    then have "x < pow2 (e + 1)" using assms(1) unfolding e_def by (intro exponentOf_upper)
    moreover have "pow2 (e + 1) = 2 ^ 53 * u"
    proof -
      have "e + 1 = 53 + (e - 52)" by simp
      then have "pow2 (e + 1) = pow2 (53 + (e - 52))" by (rule arg_cong)
      also have "\<dots> = pow2 53 * pow2 (e - 52)" by (rule pow2_add)
      finally show ?thesis by (simp add: u_def pow2_def)
    qed
    ultimately have "x / u < 2 ^ 53" using u by (simp add: pos_divide_less_eq)
    then have "x / u \<le> real_of_int (2 ^ 53)" by simp
    then have "q \<le> 2 ^ 53" unfolding q_def by (rule roundEven_le)
    with False have q: "q = 2 ^ 53" by simp
    have "pow2 (e - 52) * 2 = pow2 (e - 51)"
    proof -
      have "e - 51 = (e - 52) + 1" by simp
      then have "pow2 (e - 51) = pow2 ((e - 52) + 1)" by (rule arg_cong)
      also have "\<dots> = pow2 (e - 52) * pow2 1" by (rule pow2_add)
      finally show ?thesis by (simp add: pow2_def)
    qed
    then have "real_of_int q * u = real_of_int (2 ^ 52) * pow2 (e - 51)"
      by (simp add: q u_def)
    with er \<open>e < 1023\<close> np show ?thesis
      unfolding doubleValues_def by (intro CollectI exI [of _ "2 ^ 52"] exI [of _ "e - 51"]) simp
  qed
qed

lemma doubleValues_uminus: "y \<in> doubleValues \<Longrightarrow> - y \<in> doubleValues"
  unfolding doubleValues_def
  apply clarify
  subgoal for m e by (intro CollectI exI [of _ "- m"] exI [of _ e]) simp
  done

lemma doubleValues_abs: "y \<in> doubleValues \<Longrightarrow> \<bar>y\<bar> \<in> doubleValues"
  by (cases "0 \<le> y") (simp_all add: doubleValues_uminus)

lemma zero_in_doubleValues: "0 \<in> doubleValues"
  by (auto simp: doubleValues_def intro!: exI [of _ 0])

lemma nearest_uminus: "nearest (- x) = - nearest x"
  by (simp add: nearest_def)

lemma nearest_in:
  assumes "\<bar>nearest x\<bar> \<le> maxDouble"
  shows "nearest x \<in> doubleValues"
proof -
  consider "x = 0" | "0 < x" | "x < 0" by linarith
  then show ?thesis
  proof cases
    case 1
    then show ?thesis by (simp add: nearest_def zero_in_doubleValues)
  next
    case 2
    with assms show ?thesis by (simp add: nearest_def nearestPos_in)
  next
    case 3
    then have "0 < - x" by simp
    moreover from 3 assms have "nearestPos (- x) \<le> maxDouble" by (simp add: nearest_def)
    ultimately have "nearestPos (- x) \<in> doubleValues" by (rule nearestPos_in)
    with 3 show ?thesis by (simp add: nearest_def doubleValues_uminus)
  qed
qed


lemma inRange_in: "inRange (nearest x) \<in> doubleValues"
  by (simp add: inRange_def nearest_in zero_in_doubleValues)

lemma inRange_uminus: "inRange (- y) = - inRange y"
  by (simp add: inRange_def)

lemma inRange_abs: "inRange \<bar>y\<bar> = \<bar>inRange y\<bar>"
  by (simp add: inRange_def)

lemma nearestPos_nonneg: "0 < y \<Longrightarrow> 0 \<le> nearestPos y"
  unfolding nearestPos_def roundTo_def
  by (intro mult_nonneg_nonneg) (simp_all add: roundEven_nonneg pow2_pos less_imp_le)

lemma nearest_nonneg: "0 \<le> x \<Longrightarrow> 0 \<le> nearest x"
  by (simp add: nearest_def nearestPos_nonneg)

lemma nearest_abs: "nearest \<bar>x\<bar> = \<bar>nearest x\<bar>"
proof (cases "x < 0")
  case True
  then have "0 \<le> nearest (- x)" by (intro nearest_nonneg) simp
  with True show ?thesis by (simp add: nearest_uminus)
next
  case False
  then have "0 \<le> nearest x" by (intro nearest_nonneg) simp
  with False show ?thesis by simp
qed

text \<open>
  A double is given by its value. The three equations for \<open>valueOf\<close> are the code
  equations of the operations that make a double.
\<close>

lemma double_of_value [code abstype]: "Abs_double (valueOf d) = d"
  by (rule valueOf_inverse)

lemma valueOf_nearestDouble [code abstract]: "valueOf (nearestDouble x) = inRange (nearest x)"
  by (simp add: nearestDouble_def Abs_double_inverse inRange_in)

lemma valueOf_negDouble [code abstract]: "valueOf (negDouble d) = - valueOf d"
  by (simp add: negDouble_def Abs_double_inverse doubleValues_uminus valueOf)

lemma valueOf_absDouble [code abstract]: "valueOf (absDouble d) = \<bar>valueOf d\<bar>"
  by (simp add: absDouble_def Abs_double_inverse doubleValues_abs valueOf)

lemma double_eq_iff: "(c = d) = (valueOf c = valueOf d)" for c d :: double
  by (simp add: valueOf_inject)

instantiation double :: equal
begin

definition equal_double :: "double \<Rightarrow> double \<Rightarrow> bool" where
  "equal_double c d = (valueOf c = valueOf d)"

instance
  by standard (simp add: equal_double_def valueOf_inject)

end

lemma nearestDouble_eq:
  "(nearestDouble x = nearestDouble y) = (inRange (nearest x) = inRange (nearest y))"
  by (simp add: double_eq_iff valueOf_nearestDouble)

lemma negDouble_nearest: "negDouble (nearestDouble x) = nearestDouble (- x)"
  by (simp add: double_eq_iff valueOf_negDouble valueOf_nearestDouble nearest_uminus inRange_uminus)

lemma absDouble_nearest: "absDouble (nearestDouble x) = nearestDouble \<bar>x\<bar>"
  by (simp add: double_eq_iff valueOf_absDouble valueOf_nearestDouble nearest_abs inRange_abs)

lemma absDouble_negDouble: "absDouble (negDouble d) = absDouble d"
  by (simp add: double_eq_iff valueOf_absDouble valueOf_negDouble)

lemma toDouble_uminus: "toDouble (- x) = num_neg (toDouble x)"
proof -
  have "0 \<le> maxDouble" by (simp add: maxDouble_def)
  then show ?thesis
    by (auto simp: toDouble_def overflowTo_def nearest_uminus negDouble_nearest)
qed

section \<open>Evaluating the model on literals\<close>

text \<open>
  The recursive functions are unfolded on numerals only, so that the simplifier
  evaluates a closed term and leaves an open one alone. A literal fraction is the
  value of a double when rounding leaves it as it is.
\<close>

lemma halvings_numeral:
  "halvings (numeral k) x = (if 2 \<le> x then halvings (pred_numeral k) (x / 2) + 1 else 0)"
  by (simp add: numeral_eq_Suc)

lemma doublings_numeral:
  "doublings (numeral k) x = (if x < 1 then doublings (pred_numeral k) (x * 2) + 1 else 0)"
  by (simp add: numeral_eq_Suc)

lemma tenfolds_numeral:
  "tenfolds (numeral k) x = (if x < 1 then tenfolds (pred_numeral k) (x * 10) + 1 else 0)"
  by (simp add: numeral_eq_Suc)

lemma shortest_numeral:
  "shortest (numeral f) k x n =
     (case candidates x (nat \<lfloor>scale10 x (int k - n)\<rfloor>) (n - int k) of
        Some r \<Rightarrow> r
      | None \<Rightarrow> shortest (pred_numeral f) (k + 1) x n)"
  by (simp add: numeral_eq_Suc)

lemma replicate_numeral_unfold: "replicate (numeral v) x = x # replicate (numeral v - 1) x"
  by (simp add: numeral_eq_Suc)

lemma natDigits_0: "natDigits 0 = ''0''"
  by (simp add: natDigits.simps digitChar_def)

lemma natDigits_1: "natDigits (Suc 0) = ''1''"
  by (simp add: natDigits.simps digitChar_def)

lemma natDigits_numeral:
  "natDigits (numeral k) =
     (if (numeral k :: nat) < 10 then [digitChar (numeral k)]
      else natDigits (numeral k div 10) @ [digitChar (numeral k mod 10)])"
  by (subst natDigits.simps) (rule refl)

lemmas dbl_eval =
  halvings_numeral doublings_numeral exponentOf_def nearestPos_def nearest_def
  pow2_def roundEven_def roundFrom_def roundTo_def maxDouble_def inRange_def overflowTo_def
  toDouble_def valueOf_nearestDouble nearestDouble_eq negDouble_nearest absDouble_nearest
  realOf_def

lemmas js_eval =
  isDigit_def digitVal_def digitChar_def isWordChar_def isSpace_def lowerChar_def
  trim_def endsWithPercent_def toLowerCase_def stripTrailingZeros_def digitsValue_def
  digitRun_def groupThousands_def replicate_numeral_unfold
  natDigits_0 natDigits_1 natDigits_numeral
  tenfolds_numeral shortest_numeral pointPosition_def roundTrips_def pickDigits_def candidates_def
  layoutDigits_def digitsLayout_def posToString_def realToString_def hundredths_def realToFixed2_def
  parseExponent_def parseUnsignedDecimal_def parseStrDecimalLiteral_def radixDigit_def
  parseNonDecimal_def strToNumber_def parseFloat_def isNaN_def scale10_def
  formatNumber_def Let_def
  NUMERIC_EPSILON_def num_gt_def num_ge_def dbl_eval

lemmas engine_eval =
  formatSignal_def headerSignal_def magnitudeHeuristic_def isPercentageCell_def formatValue_def
  stringWithPercent_def isBlank_def lookupSheet_def cellInfoOf_def rowsOf_def
  loaded_def oneSheetBook_def namedBook_def plainSheet_def rawCell_def cellAt_def decimalPartOf_def
  valuesAreDifferent_def createValueComparisonSingleCell_def createValueComparisonMultiCell_def
  hasAnyDifference_def labelCell_def singleCellRow_def multiCellRow_def
  maxRowLength_def maxRowsOf_def maxColsOf_def
  createComparisonDataSingleCell_def createComparisonDataMultiCell_def

text \<open>The doubles of the literals \<open>0\<close>, \<open>1\<close>, \<open>0.001\<close>, \<open>0.000001\<close> and \<open>0.000000001\<close>.\<close>

lemma toDouble_0: "toDouble 0 = Fin (nearestDouble 0)"
  by (simp add: dbl_eval)

lemma valueOf_0: "valueOf (nearestDouble 0) = 0"
  by (simp add: dbl_eval)

lemma toDouble_1: "toDouble 1 = Fin (nearestDouble 1)"
  by (simp add: dbl_eval split del: if_split)

lemma valueOf_1: "valueOf (nearestDouble 1) = 1"
  by (simp add: dbl_eval split del: if_split)

lemma toDouble_thousandth: "toDouble (1 / 1000) = Fin (nearestDouble (1 / 1000))"
  by (simp add: dbl_eval split del: if_split)

lemma valueOf_thousandth:
  "valueOf (nearestDouble (1 / 1000)) = 1152921504606847 / 1152921504606846976"
  by (simp add: dbl_eval split del: if_split)

lemma epsilon_double: "NUMERIC_EPSILON = Fin (nearestDouble (1 / 1000000))"
  by (simp add: NUMERIC_EPSILON_def dbl_eval split del: if_split)

lemma epsilon_value: "realOf NUMERIC_EPSILON = 4722366482869645 / 4722366482869645213696"
  by (simp add: NUMERIC_EPSILON_def dbl_eval split del: if_split)

lemma billionth_value:
  "realOf (toDouble (1 / 1000000000)) = 4835703278458517 / 4835703278458516698824704"
  by (simp add: dbl_eval split del: if_split)

section \<open>Cell Differ: symmetry, the tolerance, and percentages\<close>

lemma strictEq_imp_eq: "strictEq a b \<Longrightarrow> a = b"
  by (cases a; cases b) (auto split: if_splits)

lemma strictEq_sym: "strictEq a b = strictEq b a"
  by (cases a; cases b) auto

lemma num_sub_swap: "num_sub y x = num_neg (num_sub x y)"
  by (cases x; cases y) (simp_all add: toDouble_uminus [symmetric])

lemma num_abs_neg: "num_abs (num_neg d) = num_abs d"
  by (cases d) (simp_all add: absDouble_negDouble)

lemma num_abs_sub_swap: "num_abs (num_sub x y) = num_abs (num_sub y x)"
  by (metis num_sub_swap num_abs_neg)

lemma num_sub_self: "num_sub x x = toDouble 0 \<or> num_sub x x = NaN"
  by (cases x) simp_all

lemma valuesAreDifferent_sym: "valuesAreDifferent a b = valuesAreDifferent b a"
proof -
  have "strictEq a b = strictEq b a" by (rule strictEq_sym)
  moreover have "\<And>x y. num_gt (num_abs (num_sub x y)) NUMERIC_EPSILON =
                        num_gt (num_abs (num_sub y x)) NUMERIC_EPSILON"
    by (simp add: num_abs_sub_swap)
  ultimately show ?thesis
    unfolding valuesAreDifferent_def
    by (auto split: option.splits prod.splits)
qed

lemma percentage_branch_is_shadowed:
  assumes "extractPercentageValue a = Some p"
  shows "\<exists>n. getNumericValue a False = Some n"
proof (cases a)
  case (Str s)
  with assms have "endsWithPercent (trim s)" and "\<not> isNaN (Str (butlast (trim s)))"
    by (auto simp: Let_def split: if_splits)
  moreover from this(1) have "trim s \<noteq> []"
    by (auto simp: endsWithPercent_def)
  ultimately show ?thesis
    using Str by (simp add: Let_def)
qed (use assms in simp_all)

lemma percentage_pairs_take_the_numeric_branch:
  assumes "extractPercentageValue a = Some p" and "extractPercentageValue b = Some q"
  shows "\<exists>x y. getNumericValue a False = Some x \<and> getNumericValue b False = Some y \<and>
               valuesAreDifferent a b =
                 (\<not> strictEq a b \<and> num_gt (num_abs (num_sub x y)) NUMERIC_EPSILON)"
proof -
  from percentage_branch_is_shadowed [OF assms(1)] obtain x
    where x: "getNumericValue a False = Some x" by blast
  from percentage_branch_is_shadowed [OF assms(2)] obtain y
    where y: "getNumericValue b False = Some y" by blast
  from x y show ?thesis
    by (simp add: valuesAreDifferent_def)
qed

text \<open>
  Claim C1. The number \<open>0.055\<close> and the text \<open>5.5%\<close> are meant to compare equal, both
  standing for 5.5 percent. On the code they do not: \<open>getNumericValue\<close> already reads
  the text \<open>5.5%\<close> as the number 5.5, so the numeric test compares 0.055 with 5.5 and
  reports a difference, and the percentage test, on which both sides give 5.5, is
  never reached.
\<close>

theorem differ_flags_fraction_against_percent_text:
  "getNumericValue (Num (toDouble (55 / 1000))) False = Some (toDouble (55 / 1000)) \<and>
   getNumericValue (Str ''5.5%'') False = Some (toDouble (55 / 10)) \<and>
   extractPercentageValue (Num (toDouble (55 / 1000))) = Some (toDouble (55 / 10)) \<and>
   extractPercentageValue (Str ''5.5%'') = Some (toDouble (55 / 10)) \<and>
   valuesAreDifferent (Num (toDouble (55 / 1000))) (Str ''5.5%'') = True"
  by (simp add: valuesAreDifferent_def js_eval split del: if_split)

text \<open>The two differences of magnitude \<open>c\<close>, and the tolerance test on each side of the boundary.\<close>

lemma real_abs_cases: "\<bar>t\<bar> = c \<Longrightarrow> t = c \<or> t = - c" for t c :: real
  by auto

lemma at_epsilon:
  "num_gt (num_abs (toDouble (4722366482869645 / 4722366482869645213696))) NUMERIC_EPSILON = False"
  "num_gt (num_abs (toDouble (- (4722366482869645 / 4722366482869645213696)))) NUMERIC_EPSILON = False"
  by (simp_all add: js_eval split del: if_split)

lemma beyond_epsilon:
  "num_gt (num_abs (toDouble (4840538981736974997 / 4835703278458516698824704))) NUMERIC_EPSILON = True"
  "num_gt (num_abs (toDouble (- (4840538981736974997 / 4835703278458516698824704)))) NUMERIC_EPSILON = True"
  by (simp_all add: js_eval split del: if_split)

text \<open>
  Claim C4. When both values parse as plain numbers, the pair is not reported when
  the difference of the two doubles, as it is computed or taken exactly, has the
  magnitude of \<open>NUMERIC_EPSILON\<close>, the double of the literal \<open>0.000001\<close>; and it is
  reported when the magnitude is that of \<open>NUMERIC_EPSILON\<close> plus the double of \<open>1e-9\<close>.
  The doubles of two decimals that are \<open>0.000001\<close> apart are not always so: those of
  \<open>2.000001\<close> and \<open>2\<close> are further apart and the pair is reported, those of \<open>1.000001\<close>
  and \<open>1\<close> are closer.
\<close>

theorem epsilon_boundary:
  assumes "getNumericValue a False = Some (Fin x)" and "getNumericValue b False = Some (Fin y)"
  shows "(num_abs (num_sub (Fin x) (Fin y)) = NUMERIC_EPSILON \<longrightarrow> valuesAreDifferent a b = False) \<and>
         (\<bar>valueOf x - valueOf y\<bar> = realOf NUMERIC_EPSILON \<longrightarrow> valuesAreDifferent a b = False) \<and>
         (\<bar>valueOf x - valueOf y\<bar> = realOf NUMERIC_EPSILON + realOf (toDouble (1 / 1000000000)) \<longrightarrow>
            valuesAreDifferent a b = True)"
proof -
  have same: "strictEq a b \<Longrightarrow> x = y"
    using assms strictEq_imp_eq by fastforce
  have by_delta: "valuesAreDifferent a b =
      (\<not> strictEq a b \<and> num_gt (num_abs (toDouble (valueOf x - valueOf y))) NUMERIC_EPSILON)"
    using assms by (simp add: valuesAreDifferent_def)
  have first: "valuesAreDifferent a b = False"
    if "num_abs (num_sub (Fin x) (Fin y)) = NUMERIC_EPSILON"
    using that by (simp add: by_delta epsilon_double num_gt_def)
  have second: "valuesAreDifferent a b = False"
    if "\<bar>valueOf x - valueOf y\<bar> = realOf NUMERIC_EPSILON"
  proof -
    from that have "valueOf x - valueOf y = 4722366482869645 / 4722366482869645213696 \<or>
          valueOf x - valueOf y = - (4722366482869645 / 4722366482869645213696)"
      unfolding epsilon_value by (rule real_abs_cases)
    then have "num_gt (num_abs (toDouble (valueOf x - valueOf y))) NUMERIC_EPSILON = False"
      using at_epsilon by (elim disjE) (simp_all only:)
    then show ?thesis by (simp add: by_delta)
  qed
  have third: "valuesAreDifferent a b = True"
    if h: "\<bar>valueOf x - valueOf y\<bar> = realOf NUMERIC_EPSILON + realOf (toDouble (1 / 1000000000))"
  proof -
    have "\<not> strictEq a b"
    proof
      assume "strictEq a b"
      then have "x = y" by (rule same)
      with h show False by (simp add: epsilon_value billionth_value)
    qed
    moreover from h have "valueOf x - valueOf y = 4840538981736974997 / 4835703278458516698824704 \<or>
          valueOf x - valueOf y = - (4840538981736974997 / 4835703278458516698824704)"
      unfolding epsilon_value billionth_value by (intro real_abs_cases) simp
    then have "num_gt (num_abs (toDouble (valueOf x - valueOf y))) NUMERIC_EPSILON = True"
      using beyond_epsilon by (elim disjE) (simp_all only:)
    ultimately show ?thesis by (simp add: by_delta)
  qed
  from first second third show ?thesis by blast
qed

theorem epsilon_boundary_witness:
  "getNumericValue (Num (toDouble (2 / 1000000))) False = Some (Fin (nearestDouble (2 / 1000000))) \<and>
   getNumericValue (Num (toDouble (1 / 1000000))) False = Some (Fin (nearestDouble (1 / 1000000))) \<and>
   getNumericValue (Str ''-0.000000001'') False = Some (Fin (nearestDouble (- (1 / 1000000000)))) \<and>
   \<bar>valueOf (nearestDouble (2 / 1000000)) - valueOf (nearestDouble (1 / 1000000))\<bar> =
     realOf NUMERIC_EPSILON \<and>
   num_abs (num_sub (toDouble (2 / 1000000)) (toDouble (1 / 1000000))) = NUMERIC_EPSILON \<and>
   valuesAreDifferent (Num (toDouble (2 / 1000000))) (Num (toDouble (1 / 1000000))) = False \<and>
   \<bar>valueOf (nearestDouble (1 / 1000000)) - valueOf (nearestDouble (- (1 / 1000000000)))\<bar> =
     realOf NUMERIC_EPSILON + realOf (toDouble (1 / 1000000000)) \<and>
   valuesAreDifferent (Num (toDouble (1 / 1000000))) (Str ''-0.000000001'') = True \<and>
   valuesAreDifferent (Num (toDouble 2)) (Num (toDouble (2000001 / 1000000))) = True \<and>
   numToString (num_sub (toDouble (2000001 / 1000000)) (toDouble 2)) = ''0.000001000000000139778'' \<and>
   valuesAreDifferent (Num (toDouble 1)) (Num (toDouble (1000001 / 1000000))) = False \<and>
   numToString (num_sub (toDouble (1000001 / 1000000)) (toDouble 1)) = ''9.999999999177334e-7''"
proof -
  have n: "getNumericValue (Num (toDouble (2 / 1000000))) False = Some (Fin (nearestDouble (2 / 1000000)))"
    "getNumericValue (Num (toDouble (1 / 1000000))) False = Some (Fin (nearestDouble (1 / 1000000)))"
    "getNumericValue (Str ''-0.000000001'') False = Some (Fin (nearestDouble (- (1 / 1000000000))))"
    by (simp_all add: js_eval split del: if_split)
  have d: "\<bar>valueOf (nearestDouble (2 / 1000000)) - valueOf (nearestDouble (1 / 1000000))\<bar> =
             realOf NUMERIC_EPSILON"
    "\<bar>valueOf (nearestDouble (1 / 1000000)) - valueOf (nearestDouble (- (1 / 1000000000)))\<bar> =
       realOf NUMERIC_EPSILON + realOf (toDouble (1 / 1000000000))"
    by (simp_all add: js_eval split del: if_split)
  have c: "num_abs (num_sub (toDouble (2 / 1000000)) (toDouble (1 / 1000000))) = NUMERIC_EPSILON"
    by (simp add: js_eval split del: if_split)
  have r: "valuesAreDifferent (Num (toDouble 2)) (Num (toDouble (2000001 / 1000000))) = True"
    "valuesAreDifferent (Num (toDouble 1)) (Num (toDouble (1000001 / 1000000))) = False"
    by (simp_all add: valuesAreDifferent_def js_eval split del: if_split)
  have s: "numToString (num_sub (toDouble (2000001 / 1000000)) (toDouble 2)) = ''0.000001000000000139778''"
    "numToString (num_sub (toDouble (1000001 / 1000000)) (toDouble 1)) = ''9.999999999177334e-7''"
    by (simp_all add: js_eval split del: if_split)
  from epsilon_boundary [OF n(1,2)] epsilon_boundary [OF n(2,3)]
  show ?thesis
    using n d c r s by simp
qed

lemma valuesAreDifferent_by_differDelta:
  "valuesAreDifferent a b =
     (if strictEq a b then False
      else (case differDelta a b of
              Some d \<Rightarrow> num_gt (num_abs d) NUMERIC_EPSILON
            | None \<Rightarrow> trim (toString a) \<noteq> trim (toString b)))"
  unfolding valuesAreDifferent_def differDelta_def
  by (auto split: option.splits simp: num_abs_sub_swap)

text \<open>
  Claim C6. Detection is symmetric in the two values. The difference of a pair that
  is comparable in the numeric or in the percentage branch of the differ, and the
  difference the renderer computes for a pair whose sides are numeric and of the same
  category, change sign when the two sides are exchanged.
\<close>

theorem detection_symmetric_delta_antisymmetric:
  "valuesAreDifferent a b = valuesAreDifferent b a \<and>
   differDelta b a = map_option num_neg (differDelta a b) \<and>
   numericDelta this b a cellB cellA sheetName ref =
     map_option num_neg (numericDelta this a b cellA cellB sheetName ref)"
proof (intro conjI)
  show "valuesAreDifferent a b = valuesAreDifferent b a" by (rule valuesAreDifferent_sym)
  show "differDelta b a = map_option num_neg (differDelta a b)"
    unfolding differDelta_def
    by (auto split: option.splits simp: num_sub_swap [symmetric])
  show "numericDelta this b a cellB cellA sheetName ref =
          map_option num_neg (numericDelta this a b cellA cellB sheetName ref)"
    unfolding numericDelta_def
    by (auto split: option.splits prod.splits simp: num_sub_swap [symmetric])
qed

section \<open>Value Classifier: the magnitude heuristic and the header\<close>

text \<open>
  Claim C3 says that a number without a format or header signal counts as a
  percentage when its magnitude lies in (0, 1] and its printed form has at least two
  digits after the point. The code asks for a magnitude of at least 0.001 as well:
  0.0005 has four digits after the point and is not a percentage.
\<close>

theorem small_fraction_is_no_percentage:
  "formatSignal None = False \<and>
   headerSignal revenueComparator ''Plan'' (1, 1) = False \<and>
   num_gt (num_abs (toDouble (1 / 2000))) (toDouble 0) \<and>
   num_le (num_abs (toDouble (1 / 2000))) (toDouble 1) \<and>
   decimalPartOf (toDouble (1 / 2000)) = ''0005'' \<and>
   isPercentageCell revenueComparator None ''Plan'' (1, 1) (Num (toDouble (1 / 2000))) = False"
  by (simp add: revenueComparator_def revenueOriginal_def engine_eval js_eval split del: if_split)

text \<open>
  Claim C3, amended: without a format or header signal, a number is a percentage
  exactly when its magnitude lies in [0.001, 1] and its printed form has at least two
  digits after the point.
\<close>

theorem magnitude_heuristic_from_one_thousandth:
  assumes "formatSignal cellInfo = False" and "headerSignal this sheetName ref = False"
  shows "isPercentageCell this cellInfo sheetName ref (Num n) =
           (num_ge (num_abs n) (toDouble (1 / 1000)) \<and> num_le (num_abs n) (toDouble 1) \<and>
            2 \<le> length (decimalPartOf n))"
proof (cases n)
  case (Fin x)
  then show ?thesis
    using assms
    by (auto simp: isPercentageCell_def magnitudeHeuristic_def decimalPartOf_def Let_def
          num_ge_def num_gt_def toDouble_0 toDouble_1 toDouble_thousandth
          valueOf_0 valueOf_1 valueOf_thousandth valueOf_absDouble split: list.splits)
qed (use assms in \<open>simp_all add: isPercentageCell_def magnitudeHeuristic_def num_ge_def num_gt_def
       toDouble_0 toDouble_1 toDouble_thousandth\<close>)

theorem magnitude_heuristic_witness:
  "formatSignal None = False \<and>
   headerSignal revenueComparator ''Plan'' (1, 1) = False \<and>
   decimalPartOf (toDouble (55 / 1000)) = ''055'' \<and>
   isPercentageCell revenueComparator None ''Plan'' (1, 1) (Num (toDouble (55 / 1000))) = True \<and>
   isPercentageCell revenueComparator None ''Plan'' (1, 1) (Num (toDouble (1 / 2))) = False"
  using magnitude_heuristic_from_one_thousandth
          [of None revenueComparator "''Plan''" "(1, 1)" "toDouble (55 / 1000)"]
        magnitude_heuristic_from_one_thousandth
          [of None revenueComparator "''Plan''" "(1, 1)" "toDouble (1 / 2)"]
  by (simp add: revenueComparator_def revenueOriginal_def engine_eval js_eval split del: if_split)

text \<open>
  Claim C10. The header test of \<open>isPercentageCell\<close> reads the cell in row 0 of the
  column in the sheet of \<open>this.originalData\<close>, whichever side is being classified. Two
  comparators that agree on that cell classify and format every value alike and
  render every pair alike, whatever their modified workbooks hold. Where that cell of
  the original names a percentage, the values of both sides are percentages, whatever
  their own format and magnitude; the header signal is raised by such a cell only;
  and where the original has no header signal, only the cell's own format and value
  decide.
\<close>

theorem header_signal_reads_original_workbook:
  assumes "(originalData this' = None) = (originalData this = None)"
    and "cellInfoOf (lookupSheet (originalData this') sheetName) (0, snd ref) =
         cellInfoOf (lookupSheet (originalData this) sheetName) (0, snd ref)"
  shows "headerSignal this' sheetName ref = headerSignal this sheetName ref \<and>
         isPercentageCell this' cellInfo sheetName ref val = isPercentageCell this cellInfo sheetName ref val \<and>
         formatValue this' val cellInfo sheetName ref = formatValue this val cellInfo sheetName ref \<and>
         createValueComparisonSingleCell this' a b cellA cellB sheetName ref =
           createValueComparisonSingleCell this a b cellA cellB sheetName ref \<and>
         createValueComparisonMultiCell this' a b cellA cellB sheetName ref =
           createValueComparisonMultiCell this a b cellA cellB sheetName ref \<and>
         (headerSignal this sheetName ref = False \<longrightarrow>
            isPercentageCell this' cellInfo sheetName ref val =
              (formatSignal cellInfo \<or> magnitudeHeuristic val)) \<and>
         (sheetName \<noteq> [] \<and> originalData this = Some od \<and> Sheets od sheetName = Some ws \<and>
          cells ws (0, snd ref) = Some headerCell \<and> truthy (cell_v headerCell) \<and>
          namesPercentage (toLowerCase (toString (cell_v headerCell))) \<longrightarrow>
            headerSignal this sheetName ref = True \<and>
            headerSignal this' sheetName ref = True \<and>
            isPercentageCell this' cellA sheetName ref a = True \<and>
            isPercentageCell this' cellB sheetName ref b = True \<and>
            fst (classifySide this' a cellA sheetName ref) = True \<and>
            fst (classifySide this' b cellB sheetName ref) = True) \<and>
         (headerSignal this sheetName ref = True \<longrightarrow>
            sheetName \<noteq> [] \<and>
            (\<exists>od ws headerCell.
               originalData this = Some od \<and> Sheets od sheetName = Some ws \<and>
               cells ws (0, snd ref) = Some headerCell \<and> truthy (cell_v headerCell) \<and>
               namesPercentage (toLowerCase (toString (cell_v headerCell)))))"
proof -
  have h: "headerSignal this' sheetName ref = headerSignal this sheetName ref"
    using assms by (simp add: headerSignal_def)
  have p: "\<And>c v. isPercentageCell this' c sheetName ref v = isPercentageCell this c sheetName ref v"
    by (simp add: isPercentageCell_def h)
  have f: "\<And>c v. formatValue this' v c sheetName ref = formatValue this v c sheetName ref"
    by (simp add: formatValue_def p)
  have s: "createValueComparisonSingleCell this' a b cellA cellB sheetName ref =
           createValueComparisonSingleCell this a b cellA cellB sheetName ref"
    by (simp add: createValueComparisonSingleCell_def p f)
  have m: "createValueComparisonMultiCell this' a b cellA cellB sheetName ref =
           createValueComparisonMultiCell this a b cellA cellB sheetName ref"
    by (simp add: createValueComparisonMultiCell_def p f)
  have n: "headerSignal this sheetName ref = False \<Longrightarrow>
            isPercentageCell this' cellInfo sheetName ref val =
              (formatSignal cellInfo \<or> magnitudeHeuristic val)"
    by (simp add: isPercentageCell_def h)
  have pos: "headerSignal this sheetName ref = True \<and>
            headerSignal this' sheetName ref = True \<and>
            isPercentageCell this' cellA sheetName ref a = True \<and>
            isPercentageCell this' cellB sheetName ref b = True \<and>
            fst (classifySide this' a cellA sheetName ref) = True \<and>
            fst (classifySide this' b cellB sheetName ref) = True"
    if c: "sheetName \<noteq> []" "originalData this = Some od" "Sheets od sheetName = Some ws"
      "cells ws (0, snd ref) = Some headerCell" "truthy (cell_v headerCell)"
      "namesPercentage (toLowerCase (toString (cell_v headerCell)))"
  proof -
    have hs: "headerSignal this sheetName ref = True"
      using c by (simp add: headerSignal_def lookupSheet_def cellInfoOf_def namesPercentage_def Let_def)
    then have "\<And>c v. isPercentageCell this' c sheetName ref v = True"
      by (simp add: isPercentageCell_def h)
    with hs h show ?thesis
      by (simp add: classifySide_def Let_def)
  qed
  have conv: "sheetName \<noteq> [] \<and>
            (\<exists>od ws headerCell.
               originalData this = Some od \<and> Sheets od sheetName = Some ws \<and>
               cells ws (0, snd ref) = Some headerCell \<and> truthy (cell_v headerCell) \<and>
               namesPercentage (toLowerCase (toString (cell_v headerCell))))"
    if "headerSignal this sheetName ref = True"
    using that
    by (auto simp: headerSignal_def lookupSheet_def cellInfoOf_def namesPercentage_def Let_def
             split: if_splits option.splits)
  from h p f s m n pos conv show ?thesis by blast
qed

theorem header_signal_witness:
  "(originalData rateComparator = None) = (originalData revenueComparator = None) \<and>
   cellInfoOf (lookupSheet (originalData rateComparator) ''Plan'') (0, 1) =
     cellInfoOf (lookupSheet (originalData revenueComparator) ''Plan'') (0, 1) \<and>
   cellInfoOf (lookupSheet (modifiedData rateComparator) ''Plan'') (0, 1) =
     Some \<lparr> cell_v = Str ''Growth Rate'', cell_z = None \<rparr> \<and>
   headerSignal revenueComparator ''Plan'' (1, 1) = False \<and>
   headerSignal rateComparator ''Plan'' (1, 1) = False \<and>
   isPercentageCell rateComparator None ''Plan'' (1, 1) (Num (toDouble 150)) = False \<and>
   formatValue rateComparator (Num (toDouble 150)) None ''Plan'' (1, 1) = Str ''150'' \<and>
   createValueComparisonSingleCell rateComparator (Num (toDouble 100)) (Num (toDouble 150)) None None ''Plan'' (1, 1) =
     ''Original Value: 100, Changed Value: 150, Difference: +50'' \<and>
   (originalData growthAgainstRate = None) = (originalData growthComparator = None) \<and>
   cellInfoOf (lookupSheet (originalData growthAgainstRate) ''Plan'') (0, 1) =
     cellInfoOf (lookupSheet (originalData growthComparator) ''Plan'') (0, 1) \<and>
   originalData growthComparator = Some (oneSheetBook ''Plan'' growthOriginal) \<and>
   Sheets (oneSheetBook ''Plan'' growthOriginal) ''Plan'' = Some (plainSheet growthOriginal) \<and>
   cells (plainSheet growthOriginal) (0, 1) = Some \<lparr> cell_v = Str ''Growth Rate'', cell_z = None \<rparr> \<and>
   namesPercentage (toLowerCase ''Growth Rate'') \<and>
   cellInfoOf (lookupSheet (modifiedData growthComparator) ''Plan'') (0, 1) =
     Some \<lparr> cell_v = Str ''Amount'', cell_z = None \<rparr> \<and>
   headerSignal growthComparator ''Plan'' (1, 1) = True \<and>
   headerSignal growthAgainstRate ''Plan'' (1, 1) = True \<and>
   magnitudeHeuristic (Num (toDouble 100)) = False \<and>
   magnitudeHeuristic (Num (toDouble 150)) = False \<and>
   isPercentageCell growthAgainstRate None ''Plan'' (1, 1) (Num (toDouble 100)) = True \<and>
   isPercentageCell growthAgainstRate None ''Plan'' (1, 1) (Num (toDouble 150)) = True \<and>
   isPercentageCell growthComparator None ''Plan'' (1, 1) (Num (toDouble 150)) = True \<and>
   formatValue growthComparator (Num (toDouble 150)) None ''Plan'' (1, 1) = Str ''15,000%'' \<and>
   formatValue growthAgainstRate (Num (toDouble 150)) None ''Plan'' (1, 1) = Str ''15,000%'' \<and>
   createValueComparisonSingleCell growthComparator (Num (toDouble 100)) (Num (toDouble 150)) None None ''Plan'' (1, 1) =
     ''Original Value: 10,000%, Changed Value: 15,000%, Difference: +5,000%'' \<and>
   createValueComparisonSingleCell growthAgainstRate (Num (toDouble 100)) (Num (toDouble 150)) None None ''Plan'' (1, 1) =
     ''Original Value: 10,000%, Changed Value: 15,000%, Difference: +5,000%''"
proof -
  have neg: "(originalData rateComparator = None) = (originalData revenueComparator = None)"
    "cellInfoOf (lookupSheet (originalData rateComparator) ''Plan'') (0, 1) =
     cellInfoOf (lookupSheet (originalData revenueComparator) ''Plan'') (0, 1)"
    "cellInfoOf (lookupSheet (modifiedData rateComparator) ''Plan'') (0, 1) =
     Some \<lparr> cell_v = Str ''Growth Rate'', cell_z = None \<rparr>"
    "headerSignal revenueComparator ''Plan'' (1, 1) = False"
    by (simp_all add: rateComparator_def revenueComparator_def revenueOriginal_def rateModified_def
          engine_eval js_eval split del: if_split)
  have plain: "magnitudeHeuristic (Num (toDouble 100)) = False"
    "magnitudeHeuristic (Num (toDouble 150)) = False"
    "formatSignal None = False"
    "isPercentageCell revenueComparator None ''Plan'' (1, 1) (Num (toDouble 150)) = False"
    "formatValue revenueComparator (Num (toDouble 150)) None ''Plan'' (1, 1) = Str ''150''"
    "createValueComparisonSingleCell revenueComparator (Num (toDouble 100)) (Num (toDouble 150)) None None ''Plan'' (1, 1) =
     ''Original Value: 100, Changed Value: 150, Difference: +50''"
    by (simp_all add: revenueComparator_def revenueOriginal_def engine_eval js_eval split del: if_split)
  have pos: "(originalData growthAgainstRate = None) = (originalData growthComparator = None)"
    "cellInfoOf (lookupSheet (originalData growthAgainstRate) ''Plan'') (0, 1) =
     cellInfoOf (lookupSheet (originalData growthComparator) ''Plan'') (0, 1)"
    "originalData growthComparator = Some (oneSheetBook ''Plan'' growthOriginal)"
    "Sheets (oneSheetBook ''Plan'' growthOriginal) ''Plan'' = Some (plainSheet growthOriginal)"
    "cells (plainSheet growthOriginal) (0, 1) = Some \<lparr> cell_v = Str ''Growth Rate'', cell_z = None \<rparr>"
    "namesPercentage (toLowerCase ''Growth Rate'')"
    "cellInfoOf (lookupSheet (modifiedData growthComparator) ''Plan'') (0, 1) =
     Some \<lparr> cell_v = Str ''Amount'', cell_z = None \<rparr>"
    by (simp_all add: growthAgainstRate_def growthComparator_def growthOriginal_def revenueModified_def
          namesPercentage_def engine_eval js_eval split del: if_split)
  have pct: "isPercentageCell growthComparator None ''Plan'' (1, 1) (Num (toDouble 150)) = True"
    "formatValue growthComparator (Num (toDouble 150)) None ''Plan'' (1, 1) = Str ''15,000%''"
    "createValueComparisonSingleCell growthComparator (Num (toDouble 100)) (Num (toDouble 150)) None None ''Plan'' (1, 1) =
     ''Original Value: 10,000%, Changed Value: 15,000%, Difference: +5,000%''"
    by (simp_all add: growthComparator_def growthOriginal_def engine_eval js_eval split del: if_split)
  from header_signal_reads_original_workbook
          [of rateComparator revenueComparator "''Plan''" "(1, 1)" None "Num (toDouble 150)"
              "Num (toDouble 100)" "Num (toDouble 150)" None None]
       header_signal_reads_original_workbook
          [of growthAgainstRate growthComparator "''Plan''" "(1, 1)" None "Num (toDouble 150)"
              "Num (toDouble 100)" "Num (toDouble 150)" None None
              "oneSheetBook ''Plan'' growthOriginal" "plainSheet growthOriginal"
              "\<lparr> cell_v = Str ''Growth Rate'', cell_z = None \<rparr>"]
  show ?thesis
    using neg plain pos pct by simp
qed

section \<open>Report Renderer: the sign of a difference\<close>

text \<open>
  Claim C2. A negative difference is meant to be written with a leading minus sign.
  The code formats the magnitude \<open>Math.abs(difference)\<close> and puts the empty string in
  front of it when the difference is negative, so an amount that goes from 150 to 100
  is reported as \<open>Difference: 50\<close> in both layouts.
\<close>

theorem negative_difference_loses_its_sign:
  "createValueComparisonSingleCell widgetComparator (Num (toDouble 150)) (Num (toDouble 100))
     (cellInfoOf (lookupSheet (originalData widgetComparator) ''Sheet1'') (1, 1))
     (cellInfoOf (lookupSheet (modifiedData widgetComparator) ''Sheet1'') (1, 1)) ''Sheet1'' (1, 1) =
     ''Original Value: 150, Changed Value: 100, Difference: 50'' \<and>
   createValueComparisonMultiCell widgetComparator (Num (toDouble 150)) (Num (toDouble 100))
     (cellInfoOf (lookupSheet (originalData widgetComparator) ''Sheet1'') (1, 1))
     (cellInfoOf (lookupSheet (modifiedData widgetComparator) ''Sheet1'') (1, 1)) ''Sheet1'' (1, 1) =
     \<lparr> original = Str ''150'', changed = Str ''100'', difference = ''50'' \<rparr> \<and>
   numericDelta widgetComparator (Num (toDouble 150)) (Num (toDouble 100))
     (cellInfoOf (lookupSheet (originalData widgetComparator) ''Sheet1'') (1, 1))
     (cellInfoOf (lookupSheet (modifiedData widgetComparator) ''Sheet1'') (1, 1)) ''Sheet1'' (1, 1) =
     Some (toDouble (- 50))"
  by (simp add: widgetComparator_def widgetOriginal_def widgetModified_def numericDelta_def
        classifySide_def engine_eval js_eval split del: if_split)

section \<open>Structure Validator\<close>

lemma compareNames_valid_iff:
  "length as = length bs \<Longrightarrow> isValid (compareNames as bs) = (as = bs)"
  by (induction as bs rule: list_induct2) auto

lemma compareNames_first_mismatch:
  "length as = length bs \<Longrightarrow> as \<noteq> bs \<Longrightarrow>
   \<exists>i. i < length as \<and> take i as = take i bs \<and> as ! i \<noteq> bs ! i \<and>
       compareNames as bs = \<lparr> isValid = False, message = Some (namesMessage (as ! i) (bs ! i)) \<rparr>"
proof (induction as bs rule: list_induct2)
  case Nil
  then show ?case by simp
next
  case (Cons a as b bs)
  show ?case
  proof (cases "a = b")
    case False
    then have "0 < length (a # as) \<and> take 0 (a # as) = take 0 (b # bs) \<and> (a # as) ! 0 \<noteq> (b # bs) ! 0 \<and>
       compareNames (a # as) (b # bs) =
         \<lparr> isValid = False, message = Some (namesMessage ((a # as) ! 0) ((b # bs) ! 0)) \<rparr>"
      by simp
    then show ?thesis by blast
  next
    case True
    with Cons.prems have "as \<noteq> bs" by simp
    with Cons.IH obtain i where i: "i < length as" "take i as = take i bs" "as ! i \<noteq> bs ! i"
      "compareNames as bs = \<lparr> isValid = False, message = Some (namesMessage (as ! i) (bs ! i)) \<rparr>"
      by blast
    with True have "Suc i < length (a # as) \<and> take (Suc i) (a # as) = take (Suc i) (b # bs) \<and>
       (a # as) ! Suc i \<noteq> (b # bs) ! Suc i \<and>
       compareNames (a # as) (b # bs) =
         \<lparr> isValid = False, message = Some (namesMessage ((a # as) ! Suc i) ((b # bs) ! Suc i)) \<rparr>"
      by simp
    then show ?thesis by blast
  qed
qed

text \<open>
  Claim C5. With both workbooks loaded, \<open>validateStructures\<close> accepts exactly when the
  two lists of sheet names are equal. Lists of different lengths are rejected with a
  message that states both lengths; lists of the same length that differ are rejected
  with a message that names the pair at the first position where they differ. A
  rejected pair ends \<open>performComparison\<close> with that message: the state is left as it
  was but for the cleared change sets, so nothing is compared and no report is made.
\<close>

theorem structure_gate:
  assumes "originalData this = Some od" and "modifiedData this = Some md"
  shows "\<exists>v. validateStructures this = Inr v \<and>
           (isValid v = (SheetNames od = SheetNames md)) \<and>
           (length (SheetNames od) \<noteq> length (SheetNames md) \<longrightarrow>
              message v = Some (countMessage (length (SheetNames od)) (length (SheetNames md)))) \<and>
           (length (SheetNames od) = length (SheetNames md) \<and> SheetNames od \<noteq> SheetNames md \<longrightarrow>
              (\<exists>i. i < length (SheetNames od) \<and>
                   take i (SheetNames od) = take i (SheetNames md) \<and>
                   SheetNames od ! i \<noteq> SheetNames md ! i \<and>
                   message v = Some (namesMessage (SheetNames od ! i) (SheetNames md ! i)))) \<and>
           (SheetNames od \<noteq> SheetNames md \<longrightarrow>
              (\<exists>msg. message v = Some msg \<and>
                     performComparison this = (Inl (Error msg), this\<lparr> differenceMap := Map.empty \<rparr>)))"
proof (cases "length (SheetNames od) = length (SheetNames md)")
  case False
  let ?v = "\<lparr> isValid = False,
              message = Some (countMessage (length (SheetNames od)) (length (SheetNames md))) \<rparr>"
  have v: "validateStructures this = Inr ?v"
    using assms False by (simp add: validateStructures_def)
  have v1: "validateStructures (this\<lparr> differenceMap := Map.empty \<rparr>) = Inr ?v"
    using assms False by (simp add: validateStructures_def)
  have ne: "SheetNames od \<noteq> SheetNames md" using False by auto
  have "performComparison this =
          (Inl (Error (countMessage (length (SheetNames od)) (length (SheetNames md)))),
           this\<lparr> differenceMap := Map.empty \<rparr>)"
    by (simp add: performComparison_def v1)
  with v ne False show ?thesis by simp
next
  case True
  let ?v = "compareNames (SheetNames od) (SheetNames md)"
  have v: "validateStructures this = Inr ?v"
    using assms True by (simp add: validateStructures_def)
  have v1: "validateStructures (this\<lparr> differenceMap := Map.empty \<rparr>) = Inr ?v"
    using assms True by (simp add: validateStructures_def)
  have valid: "isValid ?v = (SheetNames od = SheetNames md)"
    using True by (rule compareNames_valid_iff)
  show ?thesis
  proof (cases "SheetNames od = SheetNames md")
    case True
    with v valid show ?thesis by simp
  next
    case False
    from compareNames_first_mismatch [OF True False]
    obtain i where i: "i < length (SheetNames od)" "take i (SheetNames od) = take i (SheetNames md)"
      "SheetNames od ! i \<noteq> SheetNames md ! i"
      "?v = \<lparr> isValid = False,
               message = Some (namesMessage (SheetNames od ! i) (SheetNames md ! i)) \<rparr>"
      by blast
    have "performComparison this =
            (Inl (Error (namesMessage (SheetNames od ! i) (SheetNames md ! i))),
             this\<lparr> differenceMap := Map.empty \<rparr>)"
      by (simp add: performComparison_def v1 i(4))
    with v valid False True i show ?thesis by auto
  qed
qed

theorem structure_gate_witness:
  "originalData swappedComparator = Some (namedBook [''A'', ''B'']) \<and>
   modifiedData swappedComparator = Some (namedBook [''B'', ''A'']) \<and>
   set (SheetNames (namedBook [''A'', ''B''])) = set (SheetNames (namedBook [''B'', ''A''])) \<and>
   validateStructures swappedComparator =
     Inr \<lparr> isValid = False, message = Some ''Sheet names don't match: \"A\" vs \"B\"'' \<rparr> \<and>
   performComparison swappedComparator =
     (Inl (Error ''Sheet names don't match: \"A\" vs \"B\"''),
      swappedComparator\<lparr> differenceMap := Map.empty \<rparr>) \<and>
   validateStructures (loaded (namedBook [''A'', ''B'']) (namedBook [''A'']) ''single'') =
     Inr \<lparr> isValid = False,
           message = Some ''Different number of sheets: Original has 2, Modified has 1'' \<rparr>"
  using structure_gate [of swappedComparator "namedBook [''A'', ''B'']" "namedBook [''B'', ''A'']"]
  by (simp add: swappedComparator_def loaded_def namedBook_def validateStructures_def
        performComparison_def namesMessage_def countMessage_def natDigits_numeral natDigits_1
        digitChar_def insert_commute numeral_2_eq_2 [symmetric])

section \<open>The difference the renderer writes\<close>

text \<open>
  \<open>numericDelta\<close> is the \<open>difference\<close> of the two layouts: when it is defined, the
  text each layout writes is the signed text of that number, followed by \<open>%\<close> for a
  pair of percentages.
\<close>

lemma numericDelta_SomeD:
  assumes "numericDelta this a b cellA cellB sheetName ref = Some d"
  shows "\<exists>x y. getNumericValue a (fst (classifySide this a cellA sheetName ref)) = Some x \<and>
               getNumericValue b (fst (classifySide this b cellB sheetName ref)) = Some y \<and>
               fst (classifySide this a cellA sheetName ref) = fst (classifySide this b cellB sheetName ref) \<and>
               d = num_sub y x"
proof -
  obtain pa na where a: "classifySide this a cellA sheetName ref = (pa, na)" by (cases "classifySide this a cellA sheetName ref")
  obtain pb nb where b: "classifySide this b cellB sheetName ref = (pb, nb)" by (cases "classifySide this b cellB sheetName ref")
  have na: "na = getNumericValue a pa" and nb: "nb = getNumericValue b pb"
    using a b by (auto simp: classifySide_def Let_def)
  from assms a b show ?thesis
    by (cases na; cases nb) (auto simp: numericDelta_def na nb split: if_splits)
qed

lemma multiCell_difference_by_delta:
  assumes nb: "\<not> (isBlank a \<and> isBlank b)"
    and dl: "numericDelta this a b cellA cellB sheetName ref = Some d"
  shows "difference (createValueComparisonMultiCell this a b cellA cellB sheetName ref) =
           signedDifferenceText d @ (if fst (classifySide this a cellA sheetName ref) then ''%'' else [])"
proof -
  let ?pa = "isPercentageCell this cellA sheetName ref a \<or>
             stringWithPercent (formatValue this a cellA sheetName ref)"
  let ?pb = "isPercentageCell this cellB sheetName ref b \<or>
             stringWithPercent (formatValue this b cellB sheetName ref)"
  have nb': "(isBlank a \<and> isBlank b) = False" using nb by simp
  have fa: "fst (classifySide this a cellA sheetName ref) = ?pa"
    and fb: "fst (classifySide this b cellB sheetName ref) = ?pb"
    by (simp_all add: classifySide_def Let_def)
  from numericDelta_SomeD [OF dl] obtain x y where
    x: "getNumericValue a ?pa = Some x" and y: "getNumericValue b ?pb = Some y"
    and same: "?pa = ?pb" and d: "d = num_sub y x"
    unfolding fa fb by blast
  show ?thesis
  proof (cases ?pa)
    case True
    with same have "?pb" by simp
    with True nb' x y d show ?thesis
      unfolding createValueComparisonMultiCell_def fa
      by (auto simp add: Let_def signedDifferenceText_def)
  next
    case False
    with same have "\<not> ?pb" by simp
    with False nb' x y d show ?thesis
      unfolding createValueComparisonMultiCell_def fa
      by (auto simp add: Let_def signedDifferenceText_def)
  qed
qed

lemma singleCell_difference_by_delta:
  assumes nb: "\<not> (isBlank a \<and> isBlank b)"
    and dl: "numericDelta this a b cellA cellB sheetName ref = Some d"
  shows "createValueComparisonSingleCell this a b cellA cellB sheetName ref =
           ''Original Value: '' @ toString (formatValue this a cellA sheetName ref) @
           '', Changed Value: '' @ toString (formatValue this b cellB sheetName ref) @
           '', Difference: '' @ signedDifferenceText d @
           (if fst (classifySide this a cellA sheetName ref) then ''%'' else [])"
proof -
  let ?pa = "isPercentageCell this cellA sheetName ref a \<or>
             stringWithPercent (formatValue this a cellA sheetName ref)"
  let ?pb = "isPercentageCell this cellB sheetName ref b \<or>
             stringWithPercent (formatValue this b cellB sheetName ref)"
  have nb': "(isBlank a \<and> isBlank b) = False" using nb by simp
  have fa: "fst (classifySide this a cellA sheetName ref) = ?pa"
    and fb: "fst (classifySide this b cellB sheetName ref) = ?pb"
    by (simp_all add: classifySide_def Let_def)
  from numericDelta_SomeD [OF dl] obtain x y where
    x: "getNumericValue a ?pa = Some x" and y: "getNumericValue b ?pb = Some y"
    and same: "?pa = ?pb" and d: "d = num_sub y x"
    unfolding fa fb by blast
  show ?thesis
  proof (cases ?pa)
    case True
    with same have "?pb" by simp
    with True nb' x y d show ?thesis
      unfolding createValueComparisonSingleCell_def fa
      by (simp add: Let_def signedDifferenceText_def)
  next
    case False
    with same have "\<not> ?pb" by simp
    with False nb' x y d show ?thesis
      unfolding createValueComparisonSingleCell_def fa
      by (simp add: Let_def signedDifferenceText_def)
  qed
qed

text \<open>A negative difference beyond the tolerance is written as its magnitude alone.\<close>

lemma negative_difference_text:
  assumes "num_lt d (toDouble 0)" and "num_gt (num_abs d) NUMERIC_EPSILON"
  shows "signedDifferenceText d = formatNumber (num_abs d)"
proof -
  have "\<not> num_gt d (toDouble 0)"
    using assms(1) by (cases d) (simp_all add: num_gt_def toDouble_0)
  with assms(2) show ?thesis
    by (simp add: signedDifferenceText_def)
qed

text \<open>The decimal digits of a count read back as the count.\<close>

lemma digitsValue_snoc: "digitsValue (ds @ [c]) = 10 * digitsValue ds + digitVal c"
  by (simp add: digitsValue_def)

lemma digitVal_digitChar: "d < 10 \<Longrightarrow> digitVal (digitChar d) = d"
proof -
  assume "d < 10"
  then have "d \<in> {0, 1, 2, 3, 4, 5, 6, 7, 8, 9}" by auto
  then show ?thesis
    by (auto simp: digitVal_def digitChar_def)
qed

lemma natDigits_value: "digitsValue (natDigits n) = n"
proof (induction n rule: natDigits.induct)
  case (1 n)
  show ?case
  proof (cases "n < 10")
    case True
    then show ?thesis
      by (subst natDigits.simps) (simp add: digitsValue_def digitVal_digitChar)
  next
    case False
    with "1" have "digitsValue (natDigits (n div 10)) = n div 10" by simp
    with False show ?thesis
      by (subst natDigits.simps) (simp add: digitsValue_snoc digitVal_digitChar)
  qed
qed

section \<open>Sheet Aligner and Report Renderer: rows, labels and blank cells\<close>

lemma hasAnyDifference_iff:
  "hasAnyDifference originalRows modifiedRows maxCols row =
     (\<exists>col. 1 \<le> col \<and> col < maxCols \<and>
            valuesAreDifferent (cellAt originalRows row col) (cellAt modifiedRows row col))"
  by (auto simp: hasAnyDifference_def list_ex_iff)

lemma length_legendSingleCell: "length legendSingleCell = 7"
  by (simp add: legendSingleCell_def)

lemma length_legendMultiCell: "length (legendMultiCell maxCols) = 7"
  by (simp add: legendMultiCell_def)

lemma singleCell_data_row:
  assumes "createComparisonDataSingleCell this originalRows modifiedRows sheetName = Inr out"
    and "row < maxRowsOf originalRows modifiedRows"
  shows "out ! (7 + row) =
           singleCellRow this (lookupSheet (originalData this) sheetName)
             (lookupSheet (modifiedData this) sheetName) originalRows modifiedRows sheetName
             (maxColsOf originalRows modifiedRows) row"
  using assms
  by (auto simp: createComparisonDataSingleCell_def Let_def nth_append length_legendSingleCell
           split: if_splits)

lemma multiCell_data_row:
  assumes "createComparisonDataMultiCell this originalRows modifiedRows sheetName = Inr out"
    and "row < maxRowsOf originalRows modifiedRows"
  shows "out ! (7 + row) =
           multiCellRow this (lookupSheet (originalData this) sheetName)
             (lookupSheet (modifiedData this) sheetName) originalRows modifiedRows sheetName
             (maxColsOf originalRows modifiedRows) row"
  using assms
  by (auto simp: createComparisonDataMultiCell_def Let_def nth_append length_legendMultiCell
           split: if_splits)

lemma singleCellRow_cell:
  "1 \<le> col \<Longrightarrow> col < maxCols \<Longrightarrow>
   singleCellRow this os ms originalRows modifiedRows sheetName maxCols row ! col =
     Str (createValueComparisonSingleCell this (cellAt originalRows row col) (cellAt modifiedRows row col)
            (cellInfoOf os (row, col)) (cellInfoOf ms (row, col)) sheetName (row, col))"
  by (simp add: singleCellRow_def Let_def)

lemma nth_concat_triples:
  assumes "\<And>x. x \<in> set xs \<Longrightarrow> length (f x) = 3" and "i < length xs" and "k < 3"
  shows "concat (map f xs) ! (3 * i + k) = f (xs ! i) ! k"
  using assms
proof (induction xs arbitrary: i)
  case Nil
  then show ?case by simp
next
  case (Cons x xs)
  show ?case
  proof (cases i)
    case 0
    with Cons.prems show ?thesis by (simp add: nth_append)
  next
    case (Suc j)
    have len: "length (f x) = 3" using Cons.prems(1) by simp
    have "concat (map f (x # xs)) ! (3 * i + k) = concat (map f xs) ! (3 * j + k)"
      using Suc len by (simp add: nth_append)
    also have "\<dots> = f (xs ! j) ! k"
      using Cons.IH [of j] Cons.prems Suc by simp
    finally show ?thesis using Suc by simp
  qed
qed

lemma multiCellRow_split:
  assumes "0 < maxCols"
  shows "multiCellRow this os ms originalRows modifiedRows sheetName maxCols row =
           labelCell (hasAnyDifference originalRows modifiedRows maxCols row) (cellAt originalRows row 0) #
           concat (map (\<lambda>col.
              (let r = createValueComparisonMultiCell this (cellAt originalRows row col)
                         (cellAt modifiedRows row col) (cellInfoOf os (row, col))
                         (cellInfoOf ms (row, col)) sheetName (row, col)
               in [original r, changed r, Str (difference r)])) [1..<maxCols])"
proof -
  let ?g = "\<lambda>col.
        (let originalValue = cellAt originalRows row col;
             modifiedValue = cellAt modifiedRows row col
         in if col = 0
            then [labelCell (hasAnyDifference originalRows modifiedRows maxCols row) originalValue]
            else (let r = createValueComparisonMultiCell this originalValue modifiedValue
                            (cellInfoOf os (row, col)) (cellInfoOf ms (row, col))
                            sheetName (row, col)
                  in [original r, changed r, Str (difference r)]))"
  let ?h = "\<lambda>col.
              (let r = createValueComparisonMultiCell this (cellAt originalRows row col)
                         (cellAt modifiedRows row col) (cellInfoOf os (row, col))
                         (cellInfoOf ms (row, col)) sheetName (row, col)
               in [original r, changed r, Str (difference r)])"
  have upt: "[0..<maxCols] = 0 # [1..<maxCols]"
    using assms by (simp add: upt_conv_Cons)
  have rest: "map ?g [1..<maxCols] = map ?h [1..<maxCols]"
    by (rule map_cong [OF refl]) (simp add: Let_def)
  have "multiCellRow this os ms originalRows modifiedRows sheetName maxCols row =
          ?g 0 @ concat (map ?g [1..<maxCols])"
    unfolding multiCellRow_def upt by simp
  also have "\<dots> = ?g 0 @ concat (map ?h [1..<maxCols])"
    by (simp only: rest)
  finally show ?thesis by (simp add: Let_def)
qed

lemma multiCellRow_cell:
  assumes "1 \<le> col" and "col < maxCols" and "k < 3"
  shows "multiCellRow this os ms originalRows modifiedRows sheetName maxCols row ! (3 * col - 2 + k) =
           (let r = createValueComparisonMultiCell this (cellAt originalRows row col)
                      (cellAt modifiedRows row col) (cellInfoOf os (row, col))
                      (cellInfoOf ms (row, col)) sheetName (row, col)
            in [original r, changed r, Str (difference r)]) ! k"
proof -
  let ?f = "\<lambda>col. (let r = createValueComparisonMultiCell this (cellAt originalRows row col)
                      (cellAt modifiedRows row col) (cellInfoOf os (row, col))
                      (cellInfoOf ms (row, col)) sheetName (row, col)
            in [original r, changed r, Str (difference r)])"
  have idx: "3 * col - 2 + k = Suc (3 * (col - 1) + k)"
    using assms(1) by simp
  have "concat (map ?f [1..<maxCols]) ! (3 * (col - 1) + k) = ?f ([1..<maxCols] ! (col - 1)) ! k"
    using assms by (intro nth_concat_triples) (auto simp: Let_def)
  moreover have "[1..<maxCols] ! (col - 1) = col"
    using assms by simp
  ultimately show ?thesis
    using assms by (simp add: multiCellRow_split idx del: One_nat_def)
qed

lemma cellAt_blank: "isBlank (rawCell rows row col) \<Longrightarrow> cellAt rows row col = Str []"
  by (auto simp: cellAt_def isBlank_def Let_def)


lemma isBlank_empty: "isBlank (Str [])"
  by (simp add: isBlank_def)

lemma valuesAreDifferent_empty: "valuesAreDifferent (Str []) (Str []) = False"
  by (simp add: valuesAreDifferent_def)

lemma singleCell_blank:
  "isBlank a \<Longrightarrow> isBlank b \<Longrightarrow> createValueComparisonSingleCell this a b cellA cellB sheetName ref = []"
  by (simp add: createValueComparisonSingleCell_def)

lemma multiCell_blank:
  "isBlank a \<Longrightarrow> isBlank b \<Longrightarrow>
   createValueComparisonMultiCell this a b cellA cellB sheetName ref =
     \<lparr> original = Str [], changed = Str [], difference = [] \<rparr>"
  by (simp add: createValueComparisonMultiCell_def)

lemma sheetDifferenceList_member:
  "d \<in> set (sheetDifferenceList sheetName originalRows modifiedRows) \<Longrightarrow>
   d_sheet d = sheetName \<and> d_cellRef d = (d_row d - 1, d_col d - 1) \<and> 0 < d_row d \<and> 0 < d_col d \<and>
   valuesAreDifferent (cellAt originalRows (d_row d - 1) (d_col d - 1))
                      (cellAt modifiedRows (d_row d - 1) (d_col d - 1))"
  by (auto simp: sheetDifferenceList_def cellDifference_def Let_def split: if_splits)

lemma compareFiles_differences:
  assumes "compareFiles this = Inr this'" and "originalData this = Some od"
  shows "\<exists>res. comparisonResult this' = Some res \<and>
           differences res =
             concat (map (\<lambda>sheetName.
                 sheetDifferenceList sheetName (rowsOf (lookupSheet (originalData this) sheetName))
                   (rowsOf (lookupSheet (modifiedData this) sheetName)))
               (SheetNames od))"
  using assms
  by (auto simp: compareFiles_def Let_def lookupSheet_def split: if_splits)

lemma no_record_where_equal:
  assumes "valuesAreDifferent (cellAt originalRows row col) (cellAt modifiedRows row col) = False"
  shows "\<not> (\<exists>d. d \<in> set (sheetDifferenceList sheetName originalRows modifiedRows) \<and>
               d_row d = row + 1 \<and> d_col d = col + 1)"
  using assms sheetDifferenceList_member by fastforce

lemma compareFiles_no_record_where_equal:
  assumes "compareFiles this = Inr this'" and "comparisonResult this' = Some res"
    and "valuesAreDifferent
           (cellAt (rowsOf (lookupSheet (originalData this) sheetName)) row col)
           (cellAt (rowsOf (lookupSheet (modifiedData this) sheetName)) row col) = False"
  shows "\<not> (\<exists>d. d \<in> set (differences res) \<and> d_sheet d = sheetName \<and>
               d_row d = row + 1 \<and> d_col d = col + 1)"
proof
  assume "\<exists>d. d \<in> set (differences res) \<and> d_sheet d = sheetName \<and>
               d_row d = row + 1 \<and> d_col d = col + 1"
  then obtain d where d: "d \<in> set (differences res)" "d_sheet d = sheetName"
    "d_row d = row + 1" "d_col d = col + 1" by blast
  from assms(1) obtain od where od: "originalData this = Some od"
    by (auto simp: compareFiles_def split: option.splits)
  from compareFiles_differences [OF assms(1) od] assms(2)
  have "differences res =
          concat (map (\<lambda>sheetName.
              sheetDifferenceList sheetName (rowsOf (lookupSheet (originalData this) sheetName))
                (rowsOf (lookupSheet (modifiedData this) sheetName)))
            (SheetNames od))" by simp
  with d(1) obtain sn where sn:
    "d \<in> set (sheetDifferenceList sn (rowsOf (lookupSheet (originalData this) sn))
                (rowsOf (lookupSheet (modifiedData this) sn)))" by auto
  from sheetDifferenceList_member [OF sn] d(2) have "sn = sheetName" by simp
  with sn no_record_where_equal [OF assms(3), of sheetName] d(3,4) show False by blast
qed

lemma singleCellRow_label:
  "0 < maxCols \<Longrightarrow>
   singleCellRow this os ms originalRows modifiedRows sheetName maxCols row ! 0 =
     labelCell (hasAnyDifference originalRows modifiedRows maxCols row) (cellAt originalRows row 0)"
  by (simp add: singleCellRow_def Let_def)

lemma multiCellRow_label:
  "0 < maxCols \<Longrightarrow>
   multiCellRow this os ms originalRows modifiedRows sheetName maxCols row ! 0 =
     labelCell (hasAnyDifference originalRows modifiedRows maxCols row) (cellAt originalRows row 0)"
  by (simp add: multiCellRow_split)

lemma revenue_single:
  "createComparisonDataSingleCell revenueComparator revenueOriginal revenueModified ''Plan'' =
     Inr (legendSingleCell @
          [[Str ''Item'',
            Str ''Original Value: Amount, Changed Value: Amount, Difference: N/A (non-numeric)'',
            Str ''Original Value: Share, Changed Value: Share, Difference: N/A (non-numeric)''],
           [Str ''[CHANGED] Revenue'',
            Str ''Original Value: 100, Changed Value: 150, Difference: +50'',
            Str ''Original Value: 10%, Changed Value: 12%, Difference: +2%''],
           [Str ''Cost'',
            Str ''Original Value: 7, Changed Value: 7, Difference: 0'',
            Str ''Original Value: n/a, Changed Value: n/a, Difference: N/A (non-numeric)'']])"
  by (simp add: revenueComparator_def revenueOriginal_def revenueModified_def engine_eval js_eval
        split del: if_split)

lemma revenue_multi:
  "createComparisonDataMultiCell revenueComparator revenueOriginal revenueModified ''Plan'' =
     Inr (legendMultiCell (maxColsOf revenueOriginal revenueModified) @
          [[Str ''Item'', Str ''Amount'', Str ''Amount'', Str ''N/A (non-numeric)'',
            Str ''Share'', Str ''Share'', Str ''N/A (non-numeric)''],
           [Str ''[CHANGED] Revenue'', Str ''100'', Str ''150'', Str ''+50'',
            Str ''10%'', Str ''12%'', Str ''+2%''],
           [Str ''Cost'', Str ''7'', Str ''7'', Str ''0'',
            Str ''n/a'', Str ''n/a'', Str ''N/A (non-numeric)'']])"
  by (simp add: revenueComparator_def revenueOriginal_def revenueModified_def engine_eval js_eval
        split del: if_split)

text \<open>
  Claim C7. In both layouts the first cell of a data row is the field name read from
  the original matrix, with \<open>[CHANGED] \<close> in front of it exactly when some column from 1
  on, within the bounding box, holds a pair that \<open>valuesAreDifferent\<close> reports.
\<close>

theorem row_tagging:
  assumes "createComparisonDataSingleCell this originalRows modifiedRows sheetName = Inr outS"
    and "createComparisonDataMultiCell this originalRows modifiedRows sheetName = Inr outM"
    and "row < maxRowsOf originalRows modifiedRows"
    and "0 < maxColsOf originalRows modifiedRows"
  shows "outS ! (7 + row) ! 0 =
           (if \<exists>col. 1 \<le> col \<and> col < maxColsOf originalRows modifiedRows \<and>
                     valuesAreDifferent (cellAt originalRows row col) (cellAt modifiedRows row col)
            then Str (''[CHANGED] '' @ toString (cellAt originalRows row 0))
            else cellAt originalRows row 0) \<and>
         outM ! (7 + row) ! 0 =
           (if \<exists>col. 1 \<le> col \<and> col < maxColsOf originalRows modifiedRows \<and>
                     valuesAreDifferent (cellAt originalRows row col) (cellAt modifiedRows row col)
            then Str (''[CHANGED] '' @ toString (cellAt originalRows row 0))
            else cellAt originalRows row 0)"
  using assms
  by (simp add: singleCell_data_row multiCell_data_row singleCellRow_label multiCellRow_label
        labelCell_def hasAnyDifference_iff)

theorem row_tagging_witness:
  "\<exists>outS outM.
     createComparisonDataSingleCell revenueComparator revenueOriginal revenueModified ''Plan'' = Inr outS \<and>
     createComparisonDataMultiCell revenueComparator revenueOriginal revenueModified ''Plan'' = Inr outM \<and>
     2 < maxRowsOf revenueOriginal revenueModified \<and>
     0 < maxColsOf revenueOriginal revenueModified \<and>
     valuesAreDifferent (cellAt revenueOriginal 1 1) (cellAt revenueModified 1 1) = True \<and>
     outS ! 8 ! 0 = Str ''[CHANGED] Revenue'' \<and> outM ! 8 ! 0 = Str ''[CHANGED] Revenue'' \<and>
     hasAnyDifference revenueOriginal revenueModified (maxColsOf revenueOriginal revenueModified) 2 = False \<and>
     outS ! 9 ! 0 = Str ''Cost'' \<and> outM ! 9 ! 0 = Str ''Cost''"
proof -
  have r1: "1 < maxRowsOf revenueOriginal revenueModified"
    and r2: "2 < maxRowsOf revenueOriginal revenueModified"
    and c: "0 < maxColsOf revenueOriginal revenueModified"
    by (simp_all add: revenueOriginal_def revenueModified_def maxRowsOf_def maxColsOf_def
          maxRowLength_def)
  have d1: "valuesAreDifferent (cellAt revenueOriginal 1 1) (cellAt revenueModified 1 1) = True"
    by (simp add: revenueOriginal_def revenueModified_def engine_eval js_eval split del: if_split)
  have d2: "hasAnyDifference revenueOriginal revenueModified
              (maxColsOf revenueOriginal revenueModified) 2 = False"
    by (simp add: revenueOriginal_def revenueModified_def engine_eval js_eval split del: if_split)
  from row_tagging [OF revenue_single revenue_multi r1 c]
       row_tagging [OF revenue_single revenue_multi r2 c]
  show ?thesis
    using r2 c d1 d2
    by (simp add: revenue_single revenue_multi length_legendSingleCell length_legendMultiCell
          nth_append)
qed

text \<open>
  Claim C8 says that at every coordinate where both values are blank the rendered
  output is the empty string. Column 0 is not rendered as a comparison: it holds the
  field name of the original, tagged when the row has changed. A row without a field
  name on either side whose second cell changes is rendered with \<open>[CHANGED] \<close> in its
  first cell, in both layouts.
\<close>

theorem blank_label_is_tagged:
  "isBlank (rawCell unnamedOriginal 1 0) \<and> isBlank (rawCell unnamedModified 1 0) \<and>
   createComparisonDataSingleCell unnamedComparator unnamedOriginal unnamedModified ''Plan'' =
     Inr (legendSingleCell @
          [[Str ''Item'', Str ''Original Value: Q1, Changed Value: Q1, Difference: N/A (non-numeric)''],
           [Str ''[CHANGED] '', Str ''Original Value: 5, Changed Value: 6, Difference: +1'']]) \<and>
   createComparisonDataMultiCell unnamedComparator unnamedOriginal unnamedModified ''Plan'' =
     Inr (legendMultiCell (maxColsOf unnamedOriginal unnamedModified) @
          [[Str ''Item'', Str ''Q1'', Str ''Q1'', Str ''N/A (non-numeric)''],
           [Str ''[CHANGED] '', Str ''5'', Str ''6'', Str ''+1'']])"
  by (simp add: unnamedComparator_def unnamedOriginal_def unnamedModified_def engine_eval js_eval
        split del: if_split)

text \<open>
  Claim C8, amended: where both matrices hold a blank at a coordinate (the empty
  string, \<open>null\<close>, \<open>undefined\<close>, or nothing at all), the comparison of the two values
  is the empty string in the single-cell layout and three empty cells in the
  multi-cell layout, the accessor reads both sides as the empty string, and neither
  the scan of the sheet nor \<open>compareFiles\<close> records a difference there, in any column.
  In the rendered matrices the cell of such a coordinate is empty in every column
  from 1 on.
\<close>

theorem blank_pair_renders_empty:
  assumes "isBlank (rawCell originalRows row col)" and "isBlank (rawCell modifiedRows row col)"
  shows "createValueComparisonSingleCell this (rawCell originalRows row col) (rawCell modifiedRows row col)
           cellA cellB sheetName ref = [] \<and>
         createValueComparisonMultiCell this (rawCell originalRows row col) (rawCell modifiedRows row col)
           cellA cellB sheetName ref = \<lparr> original = Str [], changed = Str [], difference = [] \<rparr> \<and>
         cellAt originalRows row col = Str [] \<and> cellAt modifiedRows row col = Str [] \<and>
         valuesAreDifferent (cellAt originalRows row col) (cellAt modifiedRows row col) = False \<and>
         \<not> (\<exists>d. d \<in> set (sheetDifferenceList sheetName originalRows modifiedRows) \<and>
                d_row d = row + 1 \<and> d_col d = col + 1) \<and>
         (compareFiles this = Inr this' \<and> comparisonResult this' = Some res \<and>
          originalRows = rowsOf (lookupSheet (originalData this) sheetName) \<and>
          modifiedRows = rowsOf (lookupSheet (modifiedData this) sheetName) \<longrightarrow>
            \<not> (\<exists>d. d \<in> set (differences res) \<and> d_sheet d = sheetName \<and>
                   d_row d = row + 1 \<and> d_col d = col + 1)) \<and>
         (createComparisonDataSingleCell this originalRows modifiedRows sheetName = Inr outS \<and>
          row < maxRowsOf originalRows modifiedRows \<and> 1 \<le> col \<and>
          col < maxColsOf originalRows modifiedRows \<longrightarrow>
            outS ! (7 + row) ! col = Str []) \<and>
         (createComparisonDataMultiCell this originalRows modifiedRows sheetName = Inr outM \<and>
          row < maxRowsOf originalRows modifiedRows \<and> 1 \<le> col \<and>
          col < maxColsOf originalRows modifiedRows \<longrightarrow>
            outM ! (7 + row) ! (3 * col - 2) = Str [] \<and>
            outM ! (7 + row) ! (3 * col - 1) = Str [] \<and>
            outM ! (7 + row) ! (3 * col) = Str [])"
proof -
  have o: "cellAt originalRows row col = Str []" using assms(1) by (rule cellAt_blank)
  have m: "cellAt modifiedRows row col = Str []" using assms(2) by (rule cellAt_blank)
  have same: "valuesAreDifferent (cellAt originalRows row col) (cellAt modifiedRows row col) = False"
    by (simp add: o m valuesAreDifferent_empty)
  have raw1: "createValueComparisonSingleCell this (rawCell originalRows row col)
                (rawCell modifiedRows row col) cellA cellB sheetName ref = []"
    using assms by (rule singleCell_blank)
  have raw2: "createValueComparisonMultiCell this (rawCell originalRows row col)
                (rawCell modifiedRows row col) cellA cellB sheetName ref =
                \<lparr> original = Str [], changed = Str [], difference = [] \<rparr>"
    using assms by (rule multiCell_blank)
  have rec1: "\<not> (\<exists>d. d \<in> set (sheetDifferenceList sheetName originalRows modifiedRows) \<and>
                d_row d = row + 1 \<and> d_col d = col + 1)"
    using same by (rule no_record_where_equal)
  have rec2: "\<not> (\<exists>d. d \<in> set (differences res) \<and> d_sheet d = sheetName \<and>
                   d_row d = row + 1 \<and> d_col d = col + 1)"
    if "compareFiles this = Inr this'" "comparisonResult this' = Some res"
       "originalRows = rowsOf (lookupSheet (originalData this) sheetName)"
       "modifiedRows = rowsOf (lookupSheet (modifiedData this) sheetName)"
    using compareFiles_no_record_where_equal [OF that(1,2), of sheetName row col] same that(3,4)
    by simp
  have single: "outS ! (7 + row) ! col = Str []"
    if "createComparisonDataSingleCell this originalRows modifiedRows sheetName = Inr outS"
       "row < maxRowsOf originalRows modifiedRows" "1 \<le> col"
       "col < maxColsOf originalRows modifiedRows"
    using that by (simp add: singleCell_data_row singleCellRow_cell o m singleCell_blank isBlank_empty)
  have multi: "outM ! (7 + row) ! (3 * col - 2) = Str [] \<and>
            outM ! (7 + row) ! (3 * col - 1) = Str [] \<and>
            outM ! (7 + row) ! (3 * col) = Str []"
    if h: "createComparisonDataMultiCell this originalRows modifiedRows sheetName = Inr outM"
       "row < maxRowsOf originalRows modifiedRows" "1 \<le> col"
       "col < maxColsOf originalRows modifiedRows"
  proof -
    let ?r = "multiCellRow this (lookupSheet (originalData this) sheetName)
             (lookupSheet (modifiedData this) sheetName) originalRows modifiedRows sheetName
             (maxColsOf originalRows modifiedRows) row"
    have row: "outM ! (7 + row) = ?r" using h(1,2) by (rule multiCell_data_row)
    have cell: "?r ! (3 * col - 2 + k) = Str []" if "k < 3" for k
      using multiCellRow_cell [OF h(3,4) that, of this "lookupSheet (originalData this) sheetName"
              "lookupSheet (modifiedData this) sheetName" originalRows modifiedRows sheetName row] that
      by (auto simp: o m multiCell_blank isBlank_empty Let_def less_Suc_eq numeral_3_eq_3)
    have i1: "3 * col - 2 + 1 = 3 * col - 1" and i2: "3 * col - 2 + 2 = 3 * col"
      using h(3) by simp_all
    have "?r ! (3 * col - 2) = Str []" using cell [of 0] by simp
    moreover have "?r ! (3 * col - 1) = Str []" using cell [of 1] i1 by simp
    moreover have "?r ! (3 * col) = Str []" using cell [of 2] i2 by simp
    ultimately show ?thesis using row by simp
  qed
  from o m same raw1 raw2 rec1 rec2 single multi show ?thesis by blast
qed

theorem blank_pair_witness:
  "isBlank (rawCell blankOriginal 1 1) \<and> isBlank (rawCell blankModified 1 1) \<and>
   rawCell blankOriginal 1 1 = Str [] \<and> rawCell blankModified 1 1 = Null \<and>
   blankOriginal = rowsOf (lookupSheet (originalData blankComparator) ''Plan'') \<and>
   blankModified = rowsOf (lookupSheet (modifiedData blankComparator) ''Plan'') \<and>
   1 < maxRowsOf blankOriginal blankModified \<and> 1 < maxColsOf blankOriginal blankModified \<and>
   (\<exists>this' res. compareFiles blankComparator = Inr this' \<and> comparisonResult this' = Some res \<and>
      \<not> (\<exists>d. d \<in> set (differences res) \<and> d_sheet d = ''Plan'' \<and> d_row d = 2 \<and> d_col d = 2)) \<and>
   (\<exists>outS. createComparisonDataSingleCell blankComparator blankOriginal blankModified ''Plan'' = Inr outS \<and>
      outS ! 8 ! 1 = Str []) \<and>
   (\<exists>outM. createComparisonDataMultiCell blankComparator blankOriginal blankModified ''Plan'' = Inr outM \<and>
      outM ! 8 ! 1 = Str [] \<and> outM ! 8 ! 2 = Str [] \<and> outM ! 8 ! 3 = Str [])"
proof -
  have b: "isBlank (rawCell blankOriginal 1 1)" "isBlank (rawCell blankModified 1 1)"
    by (simp_all add: blankOriginal_def blankModified_def rawCell_def isBlank_def)
  have raw: "rawCell blankOriginal 1 1 = Str []" "rawCell blankModified 1 1 = Null"
    by (simp_all add: blankOriginal_def blankModified_def rawCell_def)
  have rows: "blankOriginal = rowsOf (lookupSheet (originalData blankComparator) ''Plan'')"
    "blankModified = rowsOf (lookupSheet (modifiedData blankComparator) ''Plan'')"
    by (simp_all add: blankComparator_def loaded_def oneSheetBook_def plainSheet_def rowsOf_def
          lookupSheet_def)
  have bounds: "1 < maxRowsOf blankOriginal blankModified" "1 < maxColsOf blankOriginal blankModified"
    by (simp_all add: blankOriginal_def blankModified_def maxRowsOf_def maxColsOf_def
          maxRowLength_def)
  obtain this' res where cf: "compareFiles blankComparator = Inr this'"
      "comparisonResult this' = Some res"
    by (simp add: compareFiles_def blankComparator_def loaded_def oneSheetBook_def Let_def)
  obtain outS where s: "createComparisonDataSingleCell blankComparator blankOriginal blankModified ''Plan'' = Inr outS"
    by (simp add: createComparisonDataSingleCell_def blankComparator_def loaded_def oneSheetBook_def
          lookupSheet_def Let_def)
  obtain outM where m: "createComparisonDataMultiCell blankComparator blankOriginal blankModified ''Plan'' = Inr outM"
    by (simp add: createComparisonDataMultiCell_def blankComparator_def loaded_def oneSheetBook_def
          lookupSheet_def Let_def)
  from blank_pair_renders_empty [OF b, where this = blankComparator and this' = this'
         and res = res and sheetName = "''Plan''" and outS = outS and outM = outM]
  show ?thesis
    using b raw rows bounds cf s m by (simp add: numeral_2_eq_2)
qed




























end
